theory Spec2Isabelle
  imports Main "HOL-Library.Sublist"
begin

section \<open>Bytes, lines and the helpers of the Go standard library\<close>

text \<open>
  Go strings and byte slices are sequences of bytes: \<open>string\<close> (a list of 8-bit
  characters) models both. The functions of this section are the standard library
  routines that \<open>loadConfigFile\<close> calls on the raw buffer.
\<close>

definition LF :: char where "LF = CHR 0x0A"
definition CR :: char where "CR = CHR 0x0D"

text \<open>\<open>strings.HasPrefix(s, p)\<close>.\<close>

definition HasPrefix :: "string \<Rightarrow> string \<Rightarrow> bool" where
  "HasPrefix s p = (length p \<le> length s \<and> take (length p) s = p)"

text \<open>
  \<open>strings.TrimSpace\<close> removes leading and trailing white space as \<open>unicode.IsSpace\<close>
  defines it. On bytes: the six ASCII characters tab, LF, VT, FF, CR and space, and the UTF-8
  encodings of U+0085, U+00A0, U+1680, U+2000..U+200A, U+2028, U+2029, U+202F, U+205F and
  U+3000. A byte that does not begin (or end) such an encoding stops the trimming.
\<close>

definition asciiSpace :: "char \<Rightarrow> bool" where
  "asciiSpace c = (c \<in> {CHR 0x09, CHR 0x0A, CHR 0x0B, CHR 0x0C, CHR 0x0D, CHR 0x20})"

definition unicodeSpaces :: "string list" where
  "unicodeSpaces =
    [[CHR 0xC2, CHR 0x85], [CHR 0xC2, CHR 0xA0], [CHR 0xE1, CHR 0x9A, CHR 0x80],
     [CHR 0xE2, CHR 0x80, CHR 0x80], [CHR 0xE2, CHR 0x80, CHR 0x81],
     [CHR 0xE2, CHR 0x80, CHR 0x82], [CHR 0xE2, CHR 0x80, CHR 0x83],
     [CHR 0xE2, CHR 0x80, CHR 0x84], [CHR 0xE2, CHR 0x80, CHR 0x85],
     [CHR 0xE2, CHR 0x80, CHR 0x86], [CHR 0xE2, CHR 0x80, CHR 0x87],
     [CHR 0xE2, CHR 0x80, CHR 0x88], [CHR 0xE2, CHR 0x80, CHR 0x89],
     [CHR 0xE2, CHR 0x80, CHR 0x8A], [CHR 0xE2, CHR 0x80, CHR 0xA8],
     [CHR 0xE2, CHR 0x80, CHR 0xA9], [CHR 0xE2, CHR 0x80, CHR 0xAF],
     [CHR 0xE2, CHR 0x81, CHR 0x9F], [CHR 0xE3, CHR 0x80, CHR 0x80]]"

text \<open>
  The number of bytes of the white-space rune that \<open>s\<close> starts with, \<open>0\<close> when it starts
  with none; \<open>tbl\<close> lists the multi-byte encodings.
\<close>

definition leadingSpace :: "string list \<Rightarrow> string \<Rightarrow> nat" where
  "leadingSpace tbl s =
     (case s of
        [] \<Rightarrow> 0
      | c # cs \<Rightarrow>
          if asciiSpace c then 1
          else (case find (\<lambda>e. HasPrefix s e) tbl of Some e \<Rightarrow> length e | None \<Rightarrow> 0))"

function trimLeading :: "string list \<Rightarrow> string \<Rightarrow> string" where
  "trimLeading tbl s =
     (if leadingSpace tbl s = 0 \<or> s = [] then s
      else trimLeading tbl (drop (leadingSpace tbl s) s))"
  by pat_completeness auto
termination
  by (relation "measure (\<lambda>(tbl, s). length s)") auto

declare trimLeading.simps [simp del]

text \<open>\<open>TrimFunc(s, unicode.IsSpace)\<close>: the left trim, then the right trim of what is left.\<close>

definition TrimSpace :: "string \<Rightarrow> string" where
  "TrimSpace s =
     rev (trimLeading (map rev unicodeSpaces) (rev (trimLeading unicodeSpaces s)))"

text \<open>
  \<open>bufio.Reader.ReadLine\<close> on a reader created by \<open>bufio.NewReader\<close> (a buffer of
  \<open>defaultBufSize = 4096\<close> bytes) over an in-memory buffer. The argument is what is left to
  read; the result is the line and what is left after it, \<open>None\<close> is \<open>io.EOF\<close>. The line
  ends at the first LF inside the buffer, with the end-of-line bytes (LF, or CR LF) dropped.
  When the buffer fills up without an LF, \<open>ReadLine\<close> hands out the buffer's content with
  \<open>isPrefix\<close> set (a final CR is put back for the next call), and the rest of that line
  comes with the next calls. When the data ends without an LF, what is left is the line.
\<close>

definition bufSize :: nat where "bufSize = 4096"

definition dropCR :: "string \<Rightarrow> string" where
  "dropCR a = (if a \<noteq> [] \<and> last a = CR then butlast a else a)"

definition ReadLine :: "string \<Rightarrow> (string \<times> string) option" where
  "ReadLine bs =
     (if bs = [] then None
      else
        let window = take bufSize bs;
            a = takeWhile (\<lambda>c. c \<noteq> LF) window
        in if length a < length window
           then Some (dropCR a, drop (Suc (length a)) bs)
           else if length window = bufSize
           then (if last window = CR
                 then Some (butlast window, drop (bufSize - 1) bs)
                 else Some (window, drop bufSize bs))
           else Some (window, []))"

section \<open>Detection of the encryption sentinel (\<open>loadConfigFile\<close>, lines 336 to 358)\<close>

datatype scan = Plain | Unsupported | Encrypted string

text \<open>
  The loop over \<open>r.ReadLine()\<close>: \<open>Plain\<close> stands for the two
  \<open>return provider.Load(bytes.NewReader(b))\<close>, \<open>Unsupported\<close> for the error return, and
  \<open>Encrypted r\<close> for the \<open>break\<close>, with \<open>r\<close> what the reader has not consumed. The second
  result of \<open>ReadLine\<close> (\<open>isPrefix\<close>) is discarded by the source.
\<close>

function findSentinel :: "string \<Rightarrow> scan" where
  "findSentinel r =
     (case ReadLine r of
        None \<Rightarrow> Plain
      | Some (line, r') \<Rightarrow>
          let l = TrimSpace line
          in if length l = 0 \<or> HasPrefix l '';'' \<or> HasPrefix l ''#'' then findSentinel r'
             else if l = ''RCLONE_ENCRYPT_V0:'' then Encrypted r'
             else if HasPrefix l ''RCLONE_ENCRYPT_V'' then Unsupported
             else Plain)"
  by pat_completeness auto
termination
  by (relation "measure length")
    (auto simp: ReadLine_def Let_def bufSize_def split: if_splits)

declare findSentinel.simps [simp del]

section \<open>Errors\<close>

text \<open>
  The Go \<open>error\<close> values that the config package returns, and the two ways the process
  ends instead of returning: \<open>Fatal\<close> is \<open>log.Fatalf\<close> (which exits), \<open>Panic\<close> is a runtime
  panic (a nil dereference, a slice bound out of range).
\<close>

datatype error =
    ConfigFileNotFound
  | ReadError
  | RemoveError
  | UnsupportedEncryption
  | Base64Error
  | DataTooShort
  | NoPasswordAllowed
  | PasswordError
  | ParseError
  | SaveError
  | SectionNotFound
  | Fatal
  | Panic

section \<open>The goconfig library: \<open>ConfigFile\<close>\<close>

text \<open>
  \<open>github.com/Unknwon/goconfig\<close> is a third-party library, not a part of this repository.
  The provider only calls \<open>GetSectionList\<close>, \<open>SetValue\<close>, \<open>DeleteSection\<close>, \<open>GetSection\<close>
  and \<open>DeleteKey\<close>; they are written here after the library: \<open>data\<close> maps a section name
  to its key/value map, \<open>sectionList\<close> and \<open>keyList\<close> keep the order of the file, a blank
  section name stands for the section \<open>DEFAULT\<close>, and \<open>SetValue\<close> refuses an empty key.
  Comments, the file names and the lock are left out.
\<close>

record ConfigFile =
  data :: "string \<rightharpoonup> (string \<rightharpoonup> string)"
  sectionList :: "string list"
  keyList :: "string \<rightharpoonup> string list"

definition DEFAULT_SECTION :: string where
  "DEFAULT_SECTION = ''DEFAULT''"

definition sectionName :: "string \<Rightarrow> string" where
  "sectionName s = (if length s = 0 then DEFAULT_SECTION else s)"

definition GetSectionList :: "ConfigFile \<Rightarrow> string list" where
  "GetSectionList c = sectionList c"

definition SetValue :: "string \<Rightarrow> string \<Rightarrow> string \<Rightarrow> ConfigFile \<Rightarrow> bool \<times> ConfigFile" where
  "SetValue sec key val c =
     (let s = sectionName sec in
      if length key = 0 then (False, c)
      else
        let c1 = (case data c s of
                    None \<Rightarrow> c\<lparr>data := (data c)(s \<mapsto> Map.empty),
                              sectionList := sectionList c @ [s]\<rparr>
                  | Some _ \<Rightarrow> c);
            m = (case data c1 s of None \<Rightarrow> Map.empty | Some m' \<Rightarrow> m');
            isNew = (m key = None);
            c2 = c1\<lparr>data := (data c1)(s \<mapsto> m(key \<mapsto> val))\<rparr>
        in if isNew
           then (True, c2\<lparr>keyList := (keyList c2)
                          (s \<mapsto> (case keyList c2 s of None \<Rightarrow> [] | Some ks \<Rightarrow> ks) @ [key])\<rparr>)
           else (False, c2))"

text \<open>
  \<open>DeleteSection\<close> looks the section up in \<open>data\<close>, then cuts the first occurrence of the
  name out of \<open>sectionList\<close> by its index; were the name not in the list, the slice expression
  \<open>sectionList[i+1:]\<close> would be out of range.
\<close>

definition DeleteSection :: "string \<Rightarrow> ConfigFile \<Rightarrow> error + (bool \<times> ConfigFile)" where
  "DeleteSection sec c =
     (let s = sectionName sec in
      case data c s of
        None \<Rightarrow> Inr (False, c)
      | Some _ \<Rightarrow>
          if s \<in> set (sectionList c)
          then Inr (True, c\<lparr>data := (data c)(s := None),
                            sectionList := remove1 s (sectionList c),
                            keyList := (keyList c)(s := None)\<rparr>)
          else Inl Panic)"

text \<open>
  \<open>GetSection\<close> hands out the section's map, after removing the placeholder key \<open>" "\<close> that
  the parser stores to keep a section without keys.
\<close>

definition GetSection :: "string \<Rightarrow> ConfigFile \<Rightarrow> error + ((string \<rightharpoonup> string) \<times> ConfigFile)" where
  "GetSection sec c =
     (let s = sectionName sec in
      case data c s of
        None \<Rightarrow> Inl SectionNotFound
      | Some m \<Rightarrow> Inr (m('' '' := None), c\<lparr>data := (data c)(s \<mapsto> m('' '' := None))\<rparr>))"

definition DeleteKey :: "string \<Rightarrow> string \<Rightarrow> ConfigFile \<Rightarrow> bool \<times> ConfigFile" where
  "DeleteKey sec key c =
     (let s = sectionName sec in
      case data c s of
        None \<Rightarrow> (False, c)
      | Some m \<Rightarrow>
          (case m key of
             None \<Rightarrow> (False, c)
           | Some _ \<Rightarrow>
               (True, c\<lparr>data := (data c)(s \<mapsto> m(key := None)),
                        keyList := (keyList c)
                          (s \<mapsto> remove1 key (case keyList c s of None \<Rightarrow> [] | Some ks \<Rightarrow> ks))\<rparr>)))"

section \<open>The goconfig provider: \<open>GoConfig\<close> and \<open>section\<close>\<close>

text \<open>
  \<open>GoConfig\<close> and \<open>section\<close> both hold a pointer to a \<open>goconfig.ConfigFile\<close>, and a
  \<open>section\<close> shares the pointer of the \<open>GoConfig\<close> it comes from (the record of the
  struct \<open>section\<close> is called \<open>Section\<close>, \<open>section\<close> being a word of Isabelle). The store is the list of
  the allocated \<open>ConfigFile\<close> objects, a pointer is an index into it, and \<open>None\<close> is \<open>nil\<close>:
  a method of \<open>ConfigFile\<close> called through \<open>nil\<close> panics.
\<close>

type_synonym addr = nat
type_synonym store = "ConfigFile list"

record GoConfig =
  config :: "addr option"

record Section =
  sconfig :: "addr option"
  remote :: string

definition deref :: "store \<Rightarrow> addr option \<Rightarrow> error + (addr \<times> ConfigFile)" where
  "deref h p =
     (case p of
        None \<Rightarrow> Inl Panic
      | Some a \<Rightarrow> if a < length h then Inr (a, h ! a) else Inl Panic)"

definition newSection :: "addr option \<Rightarrow> string \<Rightarrow> Section" where
  "newSection c r = \<lparr>sconfig = c, remote = r\<rparr>"

definition ListRemotes :: "GoConfig \<Rightarrow> store \<Rightarrow> error + string list" where
  "ListRemotes g h =
     (case deref h (config g) of
        Inl e \<Rightarrow> Inl e
      | Inr (a, c) \<Rightarrow> Inr (GetSectionList c))"

primrec hasRemoteLoop :: "string \<Rightarrow> string list \<Rightarrow> bool" where
  "hasRemoteLoop r [] = False"
| "hasRemoteLoop r (v # vs) = (if v = r then True else hasRemoteLoop r vs)"

definition HasRemote :: "GoConfig \<Rightarrow> string \<Rightarrow> store \<Rightarrow> error + bool" where
  "HasRemote g r h =
     (case ListRemotes g h of
        Inl e \<Rightarrow> Inl e
      | Inr l \<Rightarrow> Inr (hasRemoteLoop r l))"

definition GetRemote :: "GoConfig \<Rightarrow> string \<Rightarrow> Section" where
  "GetRemote g r = newSection (config g) r"

definition CreateRemote :: "GoConfig \<Rightarrow> string \<Rightarrow> store \<Rightarrow> error + (Section \<times> store)" where
  "CreateRemote g r h =
     (case deref h (config g) of
        Inl e \<Rightarrow> Inl e
      | Inr (a, c) \<Rightarrow> Inr (GetRemote g r, h[a := snd (SetValue r [] [] c)]))"

definition DeleteRemote :: "GoConfig \<Rightarrow> string \<Rightarrow> store \<Rightarrow> error + store" where
  "DeleteRemote g name h =
     (case deref h (config g) of
        Inl e \<Rightarrow> Inl e
      | Inr (a, c) \<Rightarrow>
          (case DeleteSection name c of
             Inl e \<Rightarrow> Inl e
           | Inr (b, c') \<Rightarrow> Inr (h[a := c'])))"

text \<open>
  \<open>CopyRemote\<close> ranges over the map that \<open>GetSection\<close> returned. Go leaves the order of
  a \<open>range\<close> over a map open: \<open>ks\<close> is the order in which the keys come, and a key that
  the map does not hold contributes nothing.
\<close>

fun copyLoop :: "string \<Rightarrow> (string \<rightharpoonup> string) \<Rightarrow> string list \<Rightarrow> ConfigFile \<Rightarrow> ConfigFile" where
  "copyLoop dst m [] c = c"
| "copyLoop dst m (k # ks) c =
     (case m k of
        None \<Rightarrow> copyLoop dst m ks c
      | Some v \<Rightarrow> copyLoop dst m ks (snd (SetValue dst k v c)))"

definition CopyRemote :: "string list \<Rightarrow> GoConfig \<Rightarrow> string \<Rightarrow> string \<Rightarrow> store \<Rightarrow> error + store" where
  "CopyRemote ks g source destination h =
     (case deref h (config g) of
        Inl e \<Rightarrow> Inl e
      | Inr (a, c) \<Rightarrow>
          (case GetSection source c of
             Inl e \<Rightarrow> Inl Fatal
           | Inr (m, c') \<Rightarrow> Inr (h[a := copyLoop destination m ks c'])))"

definition RenameRemote :: "string list \<Rightarrow> GoConfig \<Rightarrow> string \<Rightarrow> string \<Rightarrow> store \<Rightarrow> error + store" where
  "RenameRemote ks g oldName newName h =
     (case CopyRemote ks g oldName newName h of
        Inl e \<Rightarrow> Inl e
      | Inr h' \<Rightarrow>
          (case deref h' (config g) of
             Inl e \<Rightarrow> Inl e
           | Inr (a, c) \<Rightarrow>
               (case DeleteSection oldName c of
                  Inl e \<Rightarrow> Inl e
                | Inr (b, c') \<Rightarrow> Inr (h'[a := c']))))"

text \<open>The methods of \<open>section\<close>; every read goes through \<open>getRemoteData\<close>.\<close>

definition getRemoteData :: "Section \<Rightarrow> store \<Rightarrow> error + ((string \<rightharpoonup> string) \<times> store)" where
  "getRemoteData s h =
     (case deref h (sconfig s) of
        Inl e \<Rightarrow> Inl e
      | Inr (a, c) \<Rightarrow>
          (case GetSection (remote s) c of
             Inl e \<Rightarrow> Inl Fatal
           | Inr (m, c') \<Rightarrow> Inr (m, h[a := c'])))"

text \<open>
  \<open>Keys\<close> collects the keys of the map in the order of a \<open>range\<close>, which Go leaves open:
  the result is the set of the keys.
\<close>

definition Keys :: "Section \<Rightarrow> store \<Rightarrow> error + (string set \<times> store)" where
  "Keys s h =
     (case getRemoteData s h of
        Inl e \<Rightarrow> Inl e
      | Inr (m, h') \<Rightarrow> Inr (dom m, h'))"

definition GetConfig :: "Section \<Rightarrow> store \<Rightarrow> error + ((string \<rightharpoonup> string) \<times> store)" where
  "GetConfig s h =
     (case getRemoteData s h of
        Inl e \<Rightarrow> Inl e
      | Inr (m, h') \<Rightarrow> Inr (m, h'))"

definition GetString :: "Section \<Rightarrow> string \<Rightarrow> store \<Rightarrow> error + (string \<times> store)" where
  "GetString s name h =
     (case getRemoteData s h of
        Inl e \<Rightarrow> Inl e
      | Inr (m, h') \<Rightarrow> Inr ((case m name of Some v \<Rightarrow> v | None \<Rightarrow> []), h'))"

definition SetString :: "Section \<Rightarrow> string \<Rightarrow> string \<Rightarrow> store \<Rightarrow> error + store" where
  "SetString s name val h =
     (case deref h (sconfig s) of
        Inl e \<Rightarrow> Inl e
      | Inr (a, c) \<Rightarrow> Inr (h[a := snd (SetValue (remote s) name val c)]))"

definition Delete :: "Section \<Rightarrow> string \<Rightarrow> store \<Rightarrow> error + (bool \<times> store)" where
  "Delete s name h =
     (case deref h (sconfig s) of
        Inl e \<Rightarrow> Inl e
      | Inr (a, c) \<Rightarrow>
          (case DeleteKey (remote s) name c of (b, c') \<Rightarrow> Inr (b, h[a := c'])))"

section \<open>The process state of package \<open>config\<close>\<close>

text \<open>
  \<open>ProviderDefinition\<close>: \<open>NewFunc\<close> builds the provider, \<open>FileTypes\<close> lists the extensions
  it serves. \<open>GoConfig\<close> is the one implementation of \<open>Provider\<close> in the repository.
\<close>

record ProviderDefinition =
  NewFunc :: "unit \<Rightarrow> GoConfig"
  FileTypes :: "string list"

text \<open>\<open>NewGoConfigProvider\<close> returns \<open>&GoConfig{}\<close>: the \<open>config\<close> pointer is \<open>nil\<close>.\<close>

definition NewGoConfigProvider :: "unit \<Rightarrow> GoConfig" where
  "NewGoConfigProvider u = \<lparr>config = None\<rparr>"

text \<open>
  The globals of the package and the part of the operating system they touch.
  \<open>files\<close> maps a path to the content of the file there; a path in \<open>unreadable\<close> fails to
  be read with an error other than not-exist, a path in \<open>undeletable\<close> fails to be removed.
  \<open>environ\<close> is \<open>os.Getenv\<close>, the empty string for an unset variable. \<open>provider\<close> is the
  global of interface type \<open>Provider\<close>, \<open>None\<close> while it is nil; \<open>configKey\<close> is nil when
  empty. \<open>heap\<close> holds the \<open>ConfigFile\<close> objects.
\<close>

record world =
  files :: "string \<rightharpoonup> string"
  unreadable :: "string set"
  undeletable :: "string set"
  environ :: "string \<Rightarrow> string"
  ConfigPath :: string
  AskPassword :: bool
  configKey :: string
  provider :: "GoConfig option"
  configProviders :: "ProviderDefinition list"
  heap :: store

text \<open>
  What \<open>loadConfigFile\<close> and \<open>saveConfig\<close> call outside of the files given:
  \<open>setConfigPassword\<close> and \<open>getConfigPassword\<close> (functions of package \<open>config\<close> defined in
  another file; they set \<open>configKey\<close>, and \<open>getConfigPassword\<close> asks the user),
  \<open>obscure.Reveal\<close>, \<open>secretbox.Open\<close> and \<open>secretbox.Seal\<close> (taking the box or message,
  the nonce and the key), the base64 decoding of the rest of the reader (\<open>ioutil.ReadAll\<close> of
  \<open>base64.NewDecoder\<close>), and the parser and the printer of goconfig. A function that may
  end the process returns \<open>Fatal\<close> or \<open>Panic\<close> as its error.
\<close>

record deps =
  setConfigPassword :: "string \<Rightarrow> world \<Rightarrow> error option \<times> world"
  getConfigPassword :: "string \<Rightarrow> world \<Rightarrow> error option \<times> world"
  Reveal :: "string \<Rightarrow> string option"
  secretbox_Open :: "string \<Rightarrow> string \<Rightarrow> string \<Rightarrow> string option"
  secretbox_Seal :: "string \<Rightarrow> string \<Rightarrow> string \<Rightarrow> string"
  base64_ReadAll :: "string \<Rightarrow> string option"
  LoadFromReader :: "string \<Rightarrow> ConfigFile option"
  SaveConfigData :: "ConfigFile \<Rightarrow> string option"

definition aborts :: "error \<Rightarrow> bool" where
  "aborts e = (e = Fatal \<or> e = Panic)"

definition secretbox_Overhead :: nat where
  "secretbox_Overhead = 16"

text \<open>\<open>ioutil.ReadFile\<close> and \<open>os.Remove\<close>.\<close>

definition ReadFile :: "string \<Rightarrow> world \<Rightarrow> error + string" where
  "ReadFile p w =
     (if p \<in> unreadable w then Inl ReadError
      else case files w p of None \<Rightarrow> Inl ConfigFileNotFound | Some b \<Rightarrow> Inr b)"

definition os_Remove :: "string \<Rightarrow> world \<Rightarrow> error option \<times> world" where
  "os_Remove p w =
     (if p \<in> undeletable w \<or> files w p = None then (Some RemoveError, w)
      else (None, w\<lparr>files := (files w)(p := None)\<rparr>))"

text \<open>
  \<open>GoConfig.Load\<close> through the global \<open>provider\<close>: a nil interface panics, a parse error is
  returned, and otherwise the new \<open>ConfigFile\<close> is allocated and \<open>g.config\<close> points to it.
\<close>

definition provider_Load :: "deps \<Rightarrow> string \<Rightarrow> world \<Rightarrow> error option \<times> world" where
  "provider_Load D b w =
     (case provider w of
        None \<Rightarrow> (Some Panic, w)
      | Some g \<Rightarrow>
          (case LoadFromReader D b of
             None \<Rightarrow> (Some ParseError, w)
           | Some c \<Rightarrow>
               (None, w\<lparr>heap := heap w @ [c],
                        provider := Some (g\<lparr>config := Some (length (heap w))\<rparr>)\<rparr>)))"

section \<open>\<open>loadConfigFile\<close>\<close>

text \<open>Lines 318 to 326: the password of the environment is used when no key is set.\<close>

definition envPassword :: "deps \<Rightarrow> world \<Rightarrow> error option \<times> world" where
  "envPassword D w =
     (let envpw = environ w ''RCLONE_CONFIG_PASS'' in
      if length (configKey w) = 0 \<and> envpw \<noteq> []
      then (case setConfigPassword D envpw w of
              (Some e, w') \<Rightarrow> if aborts e then (Some e, w') else (None, w')
            | (None, w') \<Rightarrow> (None, w'))
      else (None, w))"

text \<open>
  Lines 372 to 395, the head of the decryption loop: where the key of this attempt comes
  from. \<open>obscure.MustReveal\<close> ends the process when the file does not hold an obscured
  string.
\<close>

definition acquireKey :: "deps \<Rightarrow> world \<Rightarrow> error option \<times> world" where
  "acquireKey D w =
     (let envKeyFile = environ w ''_RCLONE_CONFIG_KEY_FILE'' in
      if length envKeyFile > 0
      then (case ReadFile envKeyFile w of
              Inl e \<Rightarrow> (Some Fatal, snd (os_Remove envKeyFile w))
            | Inr obscuredKey \<Rightarrow>
                (case os_Remove envKeyFile w of
                   (Some e, w') \<Rightarrow> (Some Fatal, w')
                 | (None, w') \<Rightarrow>
                     (case Reveal D obscuredKey of
                        None \<Rightarrow> (Some Fatal, w')
                      | Some k \<Rightarrow> (None, w'\<lparr>configKey := k\<rparr>))))
      else if length (configKey w) = 0
      then (if \<not> AskPassword w then (Some NoPasswordAllowed, w)
            else (case getConfigPassword D ''Enter configuration password:'' w of
                    (Some e, w') \<Rightarrow> if aborts e then (Some e, w') else (None, w')
                  | (None, w') \<Rightarrow> (None, w')))
      else (None, w))"

text \<open>
  Lines 371 to 413, the loop. \<open>configKey[:32]\<close> panics when the key is shorter than 32
  bytes (Go checks the bound against the capacity of the slice, which is taken to be its
  length here). A failed \<open>secretbox.Open\<close> sets \<open>configKey\<close> to nil and goes round again;
  the loop has no bound, so the model is a partial function and \<open>None\<close> means that it
  never returns.
\<close>

partial_function (option) decryptLoop ::
  "deps \<Rightarrow> string \<Rightarrow> world \<Rightarrow> ((error + string) \<times> world) option" where
  "decryptLoop D box w =
     (case acquireKey D w of
        (Some e, w1) \<Rightarrow> Some (Inl e, w1)
      | (None, w1) \<Rightarrow>
          if length (configKey w1) < 32 then Some (Inl Panic, w1)
          else (case secretbox_Open D (drop 24 box) (take 24 box) (take 32 (configKey w1)) of
                  Some out \<Rightarrow> Some (Inr out, w1)
                | None \<Rightarrow> decryptLoop D box (w1\<lparr>configKey := []\<rparr>)))"

text \<open>Lines 360 to 414: the encrypted content, after the sentinel line.\<close>

definition decryptConfig :: "deps \<Rightarrow> string \<Rightarrow> world \<Rightarrow> (error option \<times> world) option" where
  "decryptConfig D r w =
     (case base64_ReadAll D r of
        None \<Rightarrow> Some (Some Base64Error, w)
      | Some box \<Rightarrow>
          if length box < 24 + secretbox_Overhead then Some (Some DataTooShort, w)
          else (case decryptLoop D box w of
                  None \<Rightarrow> None
                | Some (Inl e, w') \<Rightarrow> Some (Some e, w')
                | Some (Inr out, w') \<Rightarrow> Some (provider_Load D out w')))"

definition loadConfigFile :: "deps \<Rightarrow> world \<Rightarrow> (error option \<times> world) option" where
  "loadConfigFile D w =
     (case envPassword D w of
        (Some e, w1) \<Rightarrow> Some (Some e, w1)
      | (None, w1) \<Rightarrow>
          (case ReadFile (ConfigPath w1) w1 of
             Inl e \<Rightarrow> Some (Some e, w1)
           | Inr b \<Rightarrow>
               (case findSentinel b of
                  Plain \<Rightarrow> Some (provider_Load D b w1)
                | Unsupported \<Rightarrow> Some (Some UnsupportedEncryption, w1)
                | Encrypted r \<Rightarrow> decryptConfig D r w1)))"

section \<open>\<open>LoadConfig\<close>\<close>

text \<open>\<open>path.Ext\<close>: the suffix from the last dot of the last element of the path.\<close>

definition Ext :: "string \<Rightarrow> string" where
  "Ext p =
     (let e = rev (takeWhile (\<lambda>c. c \<noteq> CHR ''/'') (rev p)) in
      if CHR ''.'' \<in> set e
      then CHR ''.'' # rev (takeWhile (\<lambda>c. c \<noteq> CHR ''.'') (rev e))
      else [])"

text \<open>
  Lines 191 to 198. \<open>path.Ext(ConfigPath)[1:]\<close> is evaluated at every file type and
  panics when the path has no extension; \<open>break\<close> leaves the inner loop only.
\<close>

fun fileTypesLoop :: "ProviderDefinition \<Rightarrow> string list \<Rightarrow> world \<Rightarrow> error option \<times> world" where
  "fileTypesLoop cp [] w = (None, w)"
| "fileTypesLoop cp (ft # fts) w =
     (case Ext (ConfigPath w) of
        [] \<Rightarrow> (Some Panic, w)
      | d # ext \<Rightarrow>
          if ft = ext then (None, w\<lparr>provider := Some (NewFunc cp ())\<rparr>)
          else fileTypesLoop cp fts w)"

fun providersLoop :: "ProviderDefinition list \<Rightarrow> world \<Rightarrow> error option \<times> world" where
  "providersLoop [] w = (None, w)"
| "providersLoop (cp # cps) w =
     (case fileTypesLoop cp (FileTypes cp) w of
        (Some e, w') \<Rightarrow> (Some e, w')
      | (None, w') \<Rightarrow> providersLoop cps w')"

text \<open>
  \<open>LoadConfig\<close> has no result: \<open>None\<close> as error is its return, \<open>Fatal\<close> is
  \<open>log.Fatalf\<close>. \<open>errorConfigFileNotFound\<close> is logged and nothing else is done about it.
  The token buckets started at the end are not part of the model.
\<close>

definition LoadConfig :: "deps \<Rightarrow> world \<Rightarrow> (error option \<times> world) option" where
  "LoadConfig D w =
     (case providersLoop (configProviders w) w of
        (Some e, w1) \<Rightarrow> Some (Some e, w1)
      | (None, w1) \<Rightarrow>
          (case loadConfigFile D w1 of
             None \<Rightarrow> None
           | Some (None, w2) \<Rightarrow> Some (None, w2)
           | Some (Some e, w2) \<Rightarrow>
               if e = ConfigFileNotFound then Some (None, w2)
               else if aborts e then Some (Some e, w2)
               else Some (Some Fatal, w2)))"

text \<open>\<open>GetRemoteConfig\<close>: the method of the global \<open>provider\<close>, which returns itself.\<close>

definition GetRemoteConfig :: "world \<Rightarrow> error + GoConfig" where
  "GetRemoteConfig w = (case provider w of None \<Rightarrow> Inl Panic | Some g \<Rightarrow> Inr g)"

section \<open>\<open>saveConfig\<close>\<close>

subsection \<open>\<open>base64.StdEncoding\<close>\<close>




subsection \<open>What is written to the temporary file (lines 435 to 472)\<close>

text \<open>
  A \<open>Write d checked\<close> is one write of the bytes \<open>d\<close> to the temporary file, \<open>checked\<close>
  telling whether the source looks at its error: the errors of the three \<open>fmt.Fprintln\<close>
  and of \<open>enc.Close()\<close> are assigned to \<open>_\<close>. \<open>Stop e\<close> is a \<open>return\<close> (or a panic) between
  the writes.
\<close>

datatype wr = Write string bool | Stop error







subsection \<open>The calls on the file system, one step each\<close>

text \<open>
  \<open>saveConfig\<close> is a straight line of calls on the file system, each of which may fail.
  A state is the call that comes next and the content of the files; a step is one call,
  marked \<open>Succeeds\<close> or \<open>Fails\<close>. A write that fails leaves a part of its bytes in the file.
  \<open>T\<close> is \<open>ConfigPath\<close>, \<open>tmp\<close> the name that \<open>ioutil.TempFile\<close> chose (it creates the
  file, so no file has this name before), \<open>sc\<close> the result of \<open>saveScript\<close>. The
  permissions (\<open>os.Stat\<close>, \<open>attemptCopyGroup\<close>, \<open>os.Chmod\<close>) do not touch the content and
  never make \<open>saveConfig\<close> return: they are left out. \<open>AtDefer r\<close> is the deferred
  \<open>os.Remove(f.Name())\<close> on the way to returning \<open>r\<close>.
\<close>

datatype pc =
    AtMkdirAll
  | AtTempFile
  | AtSave
  | AtWrite nat
  | AtClose
  | AtBackup
  | AtCommit
  | AtRemoveOld
  | AtDefer "error option"
  | Returned "error option"

datatype io = Succeeds | Fails

type_synonym fsys = "string \<rightharpoonup> string"

definition oldPath :: "string \<Rightarrow> string" where
  "oldPath T = T @ ''.old''"

inductive saveStep ::
  "string \<Rightarrow> string \<Rightarrow> error + wr list \<Rightarrow> io \<Rightarrow> pc \<times> fsys \<Rightarrow> pc \<times> fsys \<Rightarrow> bool"
  for T :: string and tmp :: string and sc :: "error + wr list"
where
  mkdir_ok: "saveStep T tmp sc Succeeds (AtMkdirAll, fs) (AtTempFile, fs)"
| mkdir_err: "saveStep T tmp sc Fails (AtMkdirAll, fs) (Returned (Some SaveError), fs)"
| temp_ok: "fs tmp = None \<Longrightarrow>
    saveStep T tmp sc Succeeds (AtTempFile, fs) (AtSave, fs(tmp \<mapsto> []))"
| temp_err: "saveStep T tmp sc Fails (AtTempFile, fs) (Returned (Some SaveError), fs)"
| save_ok: "sc = Inr ws \<Longrightarrow>
    saveStep T tmp sc Succeeds (AtSave, fs) (AtWrite 0, fs)"
| save_err: "sc = Inl e \<Longrightarrow>
    saveStep T tmp sc Fails (AtSave, fs) (AtDefer (Some e), fs)"
| write_ok: "sc = Inr ws \<Longrightarrow> i < length ws \<Longrightarrow> ws ! i = Write d chk \<Longrightarrow> fs tmp = Some c \<Longrightarrow>
    saveStep T tmp sc Succeeds (AtWrite i, fs) (AtWrite (Suc i), fs(tmp \<mapsto> c @ d))"
| write_err: "sc = Inr ws \<Longrightarrow> i < length ws \<Longrightarrow> ws ! i = Write d True \<Longrightarrow> n < length d \<Longrightarrow>
    fs tmp = Some c \<Longrightarrow>
    saveStep T tmp sc Fails (AtWrite i, fs) (AtDefer (Some SaveError), fs(tmp \<mapsto> c @ take n d))"
| write_err_ignored: "sc = Inr ws \<Longrightarrow> i < length ws \<Longrightarrow> ws ! i = Write d False \<Longrightarrow>
    n < length d \<Longrightarrow> fs tmp = Some c \<Longrightarrow>
    saveStep T tmp sc Fails (AtWrite i, fs) (AtWrite (Suc i), fs(tmp \<mapsto> c @ take n d))"
| stop: "sc = Inr ws \<Longrightarrow> i < length ws \<Longrightarrow> ws ! i = Stop e \<Longrightarrow>
    saveStep T tmp sc Fails (AtWrite i, fs) (AtDefer (Some e), fs)"
| writes_done: "sc = Inr ws \<Longrightarrow>
    saveStep T tmp sc Succeeds (AtWrite (length ws), fs) (AtClose, fs)"
| close_ok: "saveStep T tmp sc Succeeds (AtClose, fs) (AtBackup, fs)"
| close_err: "saveStep T tmp sc Fails (AtClose, fs) (AtDefer (Some SaveError), fs)"
| backup_ok: "fs T = Some old \<Longrightarrow>
    saveStep T tmp sc Succeeds (AtBackup, fs) (AtCommit, fs(T := None, oldPath T \<mapsto> old))"
| backup_not_exist: "fs T = None \<Longrightarrow>
    saveStep T tmp sc Succeeds (AtBackup, fs) (AtCommit, fs)"
| backup_err: "saveStep T tmp sc Fails (AtBackup, fs) (AtDefer (Some SaveError), fs)"
| commit_ok: "fs tmp = Some c \<Longrightarrow>
    saveStep T tmp sc Succeeds (AtCommit, fs) (AtRemoveOld, fs(tmp := None, T \<mapsto> c))"
| commit_err: "saveStep T tmp sc Fails (AtCommit, fs) (AtDefer (Some SaveError), fs)"
| remove_old_ok: "saveStep T tmp sc Succeeds (AtRemoveOld, fs) (AtDefer None, fs(oldPath T := None))"
| remove_old_err: "saveStep T tmp sc Fails (AtRemoveOld, fs) (AtDefer None, fs)"
| defer_ok: "saveStep T tmp sc Succeeds (AtDefer r, fs) (Returned r, fs(tmp := None))"
| defer_err: "saveStep T tmp sc Fails (AtDefer r, fs) (Returned r, fs)"

text \<open>
  The states that \<open>saveConfig\<close> passes through, from its first call on: with any outcome
  of the calls (\<open>saveReach\<close>), and when no call fails (\<open>saveRun\<close>). The process may die in
  any of them.
\<close>

inductive saveReach ::
  "string \<Rightarrow> string \<Rightarrow> error + wr list \<Rightarrow> fsys \<Rightarrow> pc \<times> fsys \<Rightarrow> bool"
  for T :: string and tmp :: string and sc :: "error + wr list" and fs0 :: fsys
where
  reach_init: "saveReach T tmp sc fs0 (AtMkdirAll, fs0)"
| reach_step: "saveReach T tmp sc fs0 s \<Longrightarrow> saveStep T tmp sc outcome s s' \<Longrightarrow>
    saveReach T tmp sc fs0 s'"

inductive saveRun ::
  "string \<Rightarrow> string \<Rightarrow> error + wr list \<Rightarrow> fsys \<Rightarrow> pc \<times> fsys \<Rightarrow> bool"
  for T :: string and tmp :: string and sc :: "error + wr list" and fs0 :: fsys
where
  run_init: "saveRun T tmp sc fs0 (AtMkdirAll, fs0)"
| run_step: "saveRun T tmp sc fs0 s \<Longrightarrow> saveStep T tmp sc Succeeds s s' \<Longrightarrow>
    saveRun T tmp sc fs0 s'"

text \<open>The calls before the rename of the temporary file onto \<open>ConfigPath\<close> has succeeded.\<close>

fun committed :: "pc \<Rightarrow> bool" where
  "committed AtRemoveOld = True"
| "committed (AtDefer None) = True"
| "committed (Returned None) = True"
| "committed p = False"

section \<open>The properties, in the words of the specification\<close>

subsection \<open>The first significant line\<close>

text \<open>
  The lines of a buffer as the specification speaks of them: a line ends at LF, its
  end-of-line bytes (LF, or CR LF) are not part of it, and it has any length.
  \<open>lineSplits\<close> pairs every line with what follows it in the buffer.
\<close>

definition wholeLine :: "string \<Rightarrow> (string \<times> string) option" where
  "wholeLine bs =
     (if bs = [] then None
      else
        let a = takeWhile (\<lambda>c. c \<noteq> LF) bs
        in if length a < length bs then Some (dropCR a, drop (Suc (length a)) bs)
           else Some (a, []))"

function lineSplits :: "string \<Rightarrow> (string \<times> string) list" where
  "lineSplits bs =
     (case wholeLine bs of
        None \<Rightarrow> []
      | Some (l, r) \<Rightarrow> (l, r) # lineSplits r)"
  by pat_completeness auto
termination
  by (relation "measure length")
    (auto simp: wholeLine_def Let_def split: if_splits)

declare lineSplits.simps [simp del]

text \<open>
  A line is significant unless it is blank or a comment: its trimmed form is empty or
  starts with \<open>;\<close> or \<open>#\<close>.
\<close>

definition significant :: "string \<times> string \<Rightarrow> bool" where
  "significant lr =
     (let t = TrimSpace (fst lr)
      in \<not> (length t = 0 \<or> HasPrefix t '';'' \<or> HasPrefix t ''#''))"

definition firstSignificant :: "string \<Rightarrow> (string \<times> string) option" where
  "firstSignificant b = find significant (lineSplits b)"

text \<open>
  The classification as the specification words it, on the first significant line itself:
  exactly the sentinel, or another line that starts with the prefix, or anything else.
\<close>

definition claimedScan :: "string \<Rightarrow> scan" where
  "claimedScan b =
     (case firstSignificant b of
        None \<Rightarrow> Plain
      | Some (l, r) \<Rightarrow>
          if l = ''RCLONE_ENCRYPT_V0:'' then Encrypted r
          else if HasPrefix l ''RCLONE_ENCRYPT_V'' then Unsupported
          else Plain)"

text \<open>The same classification on the trimmed form of the first significant line.\<close>

definition trimmedScan :: "string \<Rightarrow> scan" where
  "trimmedScan b =
     (case firstSignificant b of
        None \<Rightarrow> Plain
      | Some (l, r) \<Rightarrow>
          let t = TrimSpace l
          in if t = ''RCLONE_ENCRYPT_V0:'' then Encrypted r
             else if HasPrefix t ''RCLONE_ENCRYPT_V'' then Unsupported
             else Plain)"

text \<open>
  The lines up to the first significant one, that one included, and the buffers in which
  each of them, with its end-of-line bytes, fits into the buffer of the reader.
\<close>

fun upToFirst :: "('a \<Rightarrow> bool) \<Rightarrow> 'a list \<Rightarrow> 'a list" where
  "upToFirst P [] = []"
| "upToFirst P (x # xs) = (if P x then [x] else x # upToFirst P xs)"

definition fitsBuffer :: "string \<Rightarrow> bool" where
  "fitsBuffer b =
     list_all (\<lambda>lr. length (fst lr) + 2 \<le> bufSize) (upToFirst significant (lineSplits b))"

subsection \<open>Unique names\<close>

text \<open>
  A \<open>ConfigFile\<close> built by the library lists every section of \<open>data\<close> once in
  \<open>sectionList\<close>, and never under the blank name (which stands for \<open>DEFAULT\<close>).
\<close>

definition uniqueNames :: "ConfigFile \<Rightarrow> bool" where
  "uniqueNames c =
     (distinct (sectionList c) \<and> set (sectionList c) = dom (data c) \<and>
      [] \<notin> set (sectionList c))"

section \<open>Example values\<close>

text \<open>
  Stand-ins for what lies outside of the repository, to run the definitions on concrete
  inputs: a box is the first 16 bytes of the key followed by the message, obscuring and
  base64 decoding are the identity, every password gives the same key, and the parser
  returns an empty \<open>ConfigFile\<close>.
\<close>

definition emptyConfigFile :: ConfigFile where
  "emptyConfigFile = \<lparr>data = Map.empty, sectionList = [], keyList = Map.empty\<rparr>"

definition exampleDeps :: deps where
  "exampleDeps = \<lparr>
     setConfigPassword = (\<lambda>p w. (None, w\<lparr>configKey := replicate 32 (CHR ''p'')\<rparr>)),
     getConfigPassword = (\<lambda>q w. (None, w\<lparr>configKey := replicate 32 (CHR ''u'')\<rparr>)),
     Reveal = Some,
     secretbox_Open =
       (\<lambda>box nonce key. if take 16 box = take 16 key then Some (drop 16 box) else None),
     secretbox_Seal = (\<lambda>m nonce key. take 16 key @ m),
     base64_ReadAll = Some,
     LoadFromReader = (\<lambda>b. Some emptyConfigFile),
     SaveConfigData = (\<lambda>c. Some ''[remote1]'')\<rparr>"

text \<open>
  A process with the goconfig provider set, no key, no environment, not allowed to ask
  for a password, and one file, \<open>rclone.conf\<close>, of content \<open>b\<close>.
\<close>

definition exampleWorld :: "string \<Rightarrow> world" where
  "exampleWorld b = \<lparr>
     files = [''rclone.conf'' \<mapsto> b],
     unreadable = {},
     undeletable = {},
     environ = (\<lambda>v. []),
     ConfigPath = ''rclone.conf'',
     AskPassword = False,
     configKey = [],
     provider = Some (NewGoConfigProvider ()),
     configProviders = [\<lparr>NewFunc = NewGoConfigProvider, FileTypes = [''conf'']\<rparr>],
     heap = []\<rparr>"

text \<open>
  An encrypted file: the sentinel line, then 40 bytes, a nonce and the box of the empty
  message made with the key \<open>k\<close>.
\<close>

definition exampleBox :: "char \<Rightarrow> string" where
  "exampleBox k = replicate 24 (CHR ''n'') @ replicate 16 k"

definition exampleEncrypted :: "char \<Rightarrow> string" where
  "exampleEncrypted k = ''RCLONE_ENCRYPT_V0:'' @ [LF] @ exampleBox k"

text \<open>A \<open>ConfigFile\<close> with the one section \<open>remote1\<close>, holding \<open>type = local\<close>.\<close>

definition exampleConfigFile :: ConfigFile where
  "exampleConfigFile = \<lparr>
     data = [''remote1'' \<mapsto> [''type'' \<mapsto> ''local'']],
     sectionList = [''remote1''],
     keyList = [''remote1'' \<mapsto> [''type'']]\<rparr>"

text \<open>Buffers for the detection of the sentinel.\<close>

definition examplePlain :: string where
  "examplePlain = ''# comment'' @ [LF] @ ''[remote1]''"

definition exampleV7 :: string where
  "exampleV7 = ''RCLONE_ENCRYPT_V7:'' @ [LF] @ ''abcd''"

definition exampleIndented :: string where
  "exampleIndented = ''  RCLONE_ENCRYPT_V7:'' @ [LF] @ ''[remote1]''"

definition exampleShort :: string where
  "exampleShort = ''RCLONE_ENCRYPT_V0:'' @ [LF] @ ''0123456789''"

definition exampleLongLine :: string where
  "exampleLongLine =
     CHR ''#'' # replicate 4095 (CHR ''x'') @ ''RCLONE_ENCRYPT_V7:'' @ [LF] @ ''[remote1]''"

text \<open>
  A process that already holds a key (32 bytes \<open>m\<close>) while the environment names a key
  file, which holds the key (32 bytes \<open>f\<close>) that the config file is encrypted with.
\<close>

definition exampleKeyFile :: string where
  "exampleKeyFile = ''/tmp/rclone-key''"

definition exampleHandoffWorld :: world where
  "exampleHandoffWorld = (exampleWorld (exampleEncrypted (CHR ''f'')))\<lparr>
     files := [''rclone.conf'' \<mapsto> exampleEncrypted (CHR ''f''),
               exampleKeyFile \<mapsto> replicate 32 (CHR ''f'')],
     environ := (\<lambda>v. if v = ''_RCLONE_CONFIG_KEY_FILE'' then exampleKeyFile else []),
     configKey := replicate 32 (CHR ''m'')\<rparr>"

text \<open>The same process once the key file has been read and removed.\<close>

definition exampleHandoffDone :: world where
  "exampleHandoffDone = exampleHandoffWorld\<lparr>
     files := [''rclone.conf'' \<mapsto> exampleEncrypted (CHR ''f'')],
     configKey := replicate 32 (CHR ''f'')\<rparr>"

text \<open>A process that holds the key of its config file, and one that may ask for it.\<close>

definition exampleKeyedWorld :: world where
  "exampleKeyedWorld =
     (exampleWorld (exampleEncrypted (CHR ''m'')))\<lparr>configKey := replicate 32 (CHR ''m'')\<rparr>"

definition exampleAskWorld :: world where
  "exampleAskWorld = (exampleWorld (exampleEncrypted (CHR ''u'')))\<lparr>AskPassword := True\<rparr>"

text \<open>
  A process just started: \<open>provider\<close> is nil, the goconfig provider is registered, and
  no file exists at \<open>ConfigPath\<close>.
\<close>

definition exampleFirstRun :: world where
  "exampleFirstRun = (exampleWorld [])\<lparr>files := Map.empty, provider := None\<rparr>"

text \<open>
  A store whose one \<open>ConfigFile\<close> holds the section \<open>DEFAULT\<close> with \<open>k = v\<close>, as the parser
  builds it from keys set before any section header, and a provider pointing to it.
\<close>

definition exampleDefaultStore :: store where
  "exampleDefaultStore = [\<lparr>
     data = [''DEFAULT'' \<mapsto> [''k'' \<mapsto> ''v'']],
     sectionList = [''DEFAULT''],
     keyList = [''DEFAULT'' \<mapsto> [''k'']]\<rparr>]"

definition exampleGoConfig :: GoConfig where
  "exampleGoConfig = \<lparr>config = Some 0\<rparr>"

text \<open>The provider's \<open>ConfigFile\<close> exists and its names are unique.\<close>

definition storeUnique :: "GoConfig \<Rightarrow> store \<Rightarrow> bool" where
  "storeUnique g h =
     (case deref h (config g) of
        Inl e \<Rightarrow> False
      | Inr (a, c) \<Rightarrow> uniqueNames c)"

text \<open>A store whose one \<open>ConfigFile\<close> holds the remote \<open>remote1\<close>.\<close>

definition exampleStore :: store where
  "exampleStore = [exampleConfigFile]"






text \<open>
  What holds in every state that \<open>saveConfig\<close> reaches, whatever fails, when the previous
  config \<open>old\<close> was at \<open>ConfigPath\<close>: until the rename of the temporary file has succeeded,
  \<open>old\<close> is at \<open>ConfigPath\<close> or at the backup path.
\<close>

fun keptInv :: "string \<Rightarrow> string \<Rightarrow> pc \<times> fsys \<Rightarrow> bool" where
  "keptInv old T (AtCommit, fs) = (fs (oldPath T) = Some old)"
| "keptInv old T (AtRemoveOld, fs) = True"
| "keptInv old T (AtDefer r, fs) = (r = None \<or> fs T = Some old \<or> fs (oldPath T) = Some old)"
| "keptInv old T (Returned r, fs) = (r = None \<or> fs T = Some old \<or> fs (oldPath T) = Some old)"
| "keptInv old T (p, fs) = (fs T = Some old)"

text \<open>
  A process with no key, no key file and no right to ask, whose environment holds a
  password in \<open>RCLONE_CONFIG_PASS\<close>; the config file is encrypted with the key that the
  password gives.
\<close>

definition exampleEnvPassWorld :: world where
  "exampleEnvPassWorld = (exampleWorld (exampleEncrypted (CHR ''p'')))\<lparr>
     environ := (\<lambda>v. if v = ''RCLONE_CONFIG_PASS'' then ''secret'' else [])\<rparr>"

section \<open>Reading lines\<close>

lemma ReadLine_shorter: "ReadLine bs = Some (l, r) \<Longrightarrow> length r < length bs"
  by (auto simp: ReadLine_def Let_def bufSize_def split: if_splits)

lemma takeWhile_take_short:
  "length (takeWhile P xs) < n \<Longrightarrow> takeWhile P (take n xs) = takeWhile P xs"
proof (induction xs arbitrary: n)
  case Nil
  then show ?case by simp
next
  case (Cons x xs)
  then show ?case by (cases n) (auto split: if_splits)
qed

lemma dropCR_length: "length a \<le> length (dropCR a) + 1"
  by (simp add: dropCR_def)

text \<open>A line that fits into the buffer is read whole.\<close>

lemma ReadLine_wholeLine:
  assumes "wholeLine bs = Some (l, r)" and "length l + 2 \<le> bufSize"
  shows "ReadLine bs = Some (l, r)"
proof -
  let ?a = "takeWhile (\<lambda>c. c \<noteq> LF) bs"
  from assms(1) have ne: "bs \<noteq> []" by (auto simp: wholeLine_def)
  have la: "length ?a \<le> length l + 1"
    using assms(1) dropCR_length [of ?a]
    by (auto simp: wholeLine_def Let_def split: if_splits)
  then have lt: "length ?a < bufSize" using assms(2) by simp
  then have tw: "takeWhile (\<lambda>c. c \<noteq> LF) (take bufSize bs) = ?a"
    by (rule takeWhile_take_short)
  show ?thesis
  proof (cases "length ?a < length bs")
    case True
    then have "length ?a < length (take bufSize bs)" using lt by simp
    then show ?thesis
      using assms(1) True ne tw by (simp add: ReadLine_def wholeLine_def Let_def)
  next
    case False
    then have len: "length ?a = length bs"
      using length_takeWhile_le [of "\<lambda>c. c \<noteq> LF" bs] by simp
    then have eq: "?a = bs"
      by (metis takeWhile_eq_take take_all order_refl)
    have "length bs < bufSize" using lt len by simp
    then show ?thesis
      using assms(1) False ne tw eq by (simp add: ReadLine_def wholeLine_def Let_def)
  qed
qed

text \<open>
  On a buffer whose lines up to the first significant one fit into the reader's buffer,
  the loop of \<open>loadConfigFile\<close> classifies by the trimmed form of that line.
\<close>

lemma findSentinel_trimmedScan:
  "fitsBuffer b \<Longrightarrow> findSentinel b = trimmedScan b"
proof (induction b rule: lineSplits.induct)
  case (1 bs)
  show ?case
  proof (cases "wholeLine bs")
    case None
    then have "bs = []" by (auto simp: wholeLine_def Let_def split: if_splits)
    then show ?thesis
      by (simp add: findSentinel.simps ReadLine_def trimmedScan_def firstSignificant_def
          lineSplits.simps wholeLine_def)
  next
    case (Some lr)
    obtain l r where lr: "lr = (l, r)" by (cases lr)
    have ls: "lineSplits bs = (l, r) # lineSplits r"
      using Some lr by (subst lineSplits.simps) simp
    have fit: "length l + 2 \<le> bufSize"
      using "1.prems" ls by (simp add: fitsBuffer_def split: if_splits)
    have rl: "ReadLine bs = Some (l, r)"
      using Some lr fit by (simp add: ReadLine_wholeLine)
    show ?thesis
    proof (cases "significant (l, r)")
      case True
      then show ?thesis
        using rl ls
        by (subst findSentinel.simps)
          (auto simp: trimmedScan_def firstSignificant_def significant_def Let_def)
    next
      case False
      then have "fitsBuffer r"
        using "1.prems" ls by (simp add: fitsBuffer_def)
      then have "findSentinel r = trimmedScan r"
        using "1.IH" Some lr by simp
      then show ?thesis
        using rl ls False
        by (subst findSentinel.simps)
          (auto simp: trimmedScan_def firstSignificant_def significant_def Let_def)
    qed
  qed
qed

section \<open>\<open>loadConfigFile\<close>: the sentinel, the length of the box, the password\<close>

lemma envPassword_update3:
  "envPassword (D\<lparr>getConfigPassword := gp, Reveal := rv, secretbox_Open := so\<rparr>) w
     = envPassword D w"
  by (simp add: envPassword_def Let_def)

lemma envPassword_update2:
  "envPassword (D\<lparr>getConfigPassword := gp, secretbox_Open := so\<rparr>) w = envPassword D w"
  by (simp add: envPassword_def Let_def)

lemma exampleWorld_envPassword: "envPassword D (exampleWorld b) = (None, exampleWorld b)"
  by (simp add: envPassword_def exampleWorld_def)

lemma exampleWorld_ReadFile: "ReadFile (ConfigPath (exampleWorld b)) (exampleWorld b) = Inr b"
  by (simp add: ReadFile_def exampleWorld_def)

lemma exampleEncrypted_scan: "findSentinel (exampleEncrypted k) = Encrypted (exampleBox k)"
  by (subst findSentinel.simps, simp add: exampleEncrypted_def ReadLine_def bufSize_def LF_def
      dropCR_def CR_def, code_simp)

text \<open>
  C1, as amended. \<open>loadConfigFile\<close> classifies the buffer by the trimmed form of its
  first significant line (blank lines and lines whose trimmed form starts with \<open>;\<close> or
  \<open>#\<close> are skipped), for a buffer whose lines up to that one fit into the 4096 bytes of
  the reader: the sentinel \<open>RCLONE_ENCRYPT_V0:\<close> sends what follows the line to the
  decryption, another line with the prefix \<open>RCLONE_ENCRYPT_V\<close> is the unsupported-version
  error with nothing else done, and otherwise the whole raw buffer goes to
  \<open>Provider.Load\<close>.
\<close>

theorem sentinel_classification:
  assumes "envPassword D w = (None, w1)"
    and "ReadFile (ConfigPath w1) w1 = Inr b"
    and "fitsBuffer b"
  shows "loadConfigFile D w =
           (case trimmedScan b of
              Plain \<Rightarrow> Some (provider_Load D b w1)
            | Unsupported \<Rightarrow> Some (Some UnsupportedEncryption, w1)
            | Encrypted r \<Rightarrow> decryptConfig D r w1)"
  using assms by (simp add: loadConfigFile_def findSentinel_trimmedScan)

theorem sentinel_classification_witness:
  "fitsBuffer examplePlain \<and>
   loadConfigFile exampleDeps (exampleWorld examplePlain)
     = Some (provider_Load exampleDeps examplePlain (exampleWorld examplePlain)) \<and>
   fitsBuffer exampleV7 \<and>
   loadConfigFile exampleDeps (exampleWorld exampleV7)
     = Some (Some UnsupportedEncryption, exampleWorld exampleV7) \<and>
   fitsBuffer (exampleEncrypted (CHR ''k'')) \<and>
   loadConfigFile exampleDeps (exampleWorld (exampleEncrypted (CHR ''k'')))
     = decryptConfig exampleDeps (exampleBox (CHR ''k'')) (exampleWorld (exampleEncrypted (CHR ''k'')))"
proof -
  have f1: "fitsBuffer examplePlain" by code_simp
  have s1: "trimmedScan examplePlain = Plain" by code_simp
  have f2: "fitsBuffer exampleV7" by code_simp
  have s2: "trimmedScan exampleV7 = Unsupported" by code_simp
  have f3: "fitsBuffer (exampleEncrypted (CHR ''k''))" by code_simp
  have s3: "trimmedScan (exampleEncrypted (CHR ''k'')) = Encrypted (exampleBox (CHR ''k''))"
    by code_simp
  show ?thesis
    using sentinel_classification [OF exampleWorld_envPassword exampleWorld_ReadFile f1, of exampleDeps]
      sentinel_classification [OF exampleWorld_envPassword exampleWorld_ReadFile f2, of exampleDeps]
      sentinel_classification [OF exampleWorld_envPassword exampleWorld_ReadFile f3, of exampleDeps]
    by (simp add: f1 f2 f3 s1 s2 s3)
qed

text \<open>
  C1 as it is stated fails: the comparison is made on the trimmed line. An indented line
  \<open>RCLONE_ENCRYPT_V7:\<close> does not itself start with the prefix, so the statement sends the
  buffer to \<open>Provider.Load\<close>; \<open>loadConfigFile\<close> returns the unsupported-version error.
\<close>

theorem sentinel_classification_counterexample:
  "claimedScan exampleIndented = Plain \<and>
   loadConfigFile exampleDeps (exampleWorld exampleIndented)
     = Some (Some UnsupportedEncryption, exampleWorld exampleIndented) \<and>
   loadConfigFile exampleDeps (exampleWorld exampleIndented)
     \<noteq> Some (provider_Load exampleDeps exampleIndented (exampleWorld exampleIndented))"
proof -
  have c: "claimedScan exampleIndented = Plain" by code_simp
  have s: "findSentinel exampleIndented = Unsupported" by code_simp
  have l: "loadConfigFile exampleDeps (exampleWorld exampleIndented)
     = Some (Some UnsupportedEncryption, exampleWorld exampleIndented)"
    by (simp add: loadConfigFile_def exampleWorld_envPassword exampleWorld_ReadFile s)
  have p: "fst (provider_Load exampleDeps exampleIndented (exampleWorld exampleIndented)) = None"
    by (simp add: provider_Load_def exampleWorld_def exampleDeps_def)
  have "Some (Some UnsupportedEncryption, exampleWorld exampleIndented)
      \<noteq> Some (provider_Load exampleDeps exampleIndented (exampleWorld exampleIndented))"
  proof
    assume "Some (Some UnsupportedEncryption, exampleWorld exampleIndented)
      = Some (provider_Load exampleDeps exampleIndented (exampleWorld exampleIndented))"
    then have "fst (provider_Load exampleDeps exampleIndented (exampleWorld exampleIndented))
      = Some UnsupportedEncryption"
      by (metis fst_conv option.inject)
    with p show False by simp
  qed
  with c l show ?thesis by simp
qed

text \<open>
  C6. In encrypted mode, a decoded box shorter than 24 bytes plus the overhead of
  \<open>secretbox\<close> makes \<open>loadConfigFile\<close> return the data-too-short error. The state is the
  one before the box was read, whatever the prompt, \<open>obscure.Reveal\<close> and
  \<open>secretbox.Open\<close> would do: no key is acquired and no decryption attempted.
\<close>

theorem data_too_short:
  assumes "envPassword D w = (None, w1)"
    and "ReadFile (ConfigPath w1) w1 = Inr b"
    and "findSentinel b = Encrypted r"
    and "base64_ReadAll D r = Some box"
    and "length box < 24 + secretbox_Overhead"
  shows "loadConfigFile (D\<lparr>getConfigPassword := gp, Reveal := rv, secretbox_Open := so\<rparr>) w
           = Some (Some DataTooShort, w1)"
proof -
  let ?D = "D\<lparr>getConfigPassword := gp, Reveal := rv, secretbox_Open := so\<rparr>"
  have "envPassword ?D w = (None, w1)"
    using assms(1) by (simp add: envPassword_update3)
  moreover have "decryptConfig ?D r w1 = Some (Some DataTooShort, w1)"
    using assms(4,5) by (simp add: decryptConfig_def)
  ultimately show ?thesis
    using assms(2,3) by (simp add: loadConfigFile_def)
qed

theorem data_too_short_witness:
  "length (''0123456789'') < 24 + secretbox_Overhead \<and>
   loadConfigFile exampleDeps (exampleWorld exampleShort)
     = Some (Some DataTooShort, exampleWorld exampleShort)"
proof -
  have s: "findSentinel exampleShort = Encrypted ''0123456789''"
    by code_simp
  have d: "base64_ReadAll exampleDeps ''0123456789'' = Some ''0123456789''"
    by (simp add: exampleDeps_def)
  have n: "length (''0123456789'') < 24 + secretbox_Overhead"
    by (simp add: secretbox_Overhead_def)
  have u: "exampleDeps\<lparr>getConfigPassword := getConfigPassword exampleDeps,
             Reveal := Reveal exampleDeps, secretbox_Open := secretbox_Open exampleDeps\<rparr> = exampleDeps"
    by simp
  show ?thesis
    using data_too_short [OF exampleWorld_envPassword exampleWorld_ReadFile s d n,
        where gp = "getConfigPassword exampleDeps" and rv = "Reveal exampleDeps"
          and so = "secretbox_Open exampleDeps"]
    by (simp only: u n simp_thms)
qed

text \<open>
  C7, as amended. The content is encrypted (the sentinel is found and the box decodes to
  at least 24 bytes plus the overhead), and once \<open>loadConfigFile\<close> has used the password
  of \<open>RCLONE_CONFIG_PASS\<close>, if there is one, to set the key (state \<open>w1\<close>), no key is in
  memory, the environment names no key file and \<open>AskPassword\<close> is false: then
  \<open>loadConfigFile\<close> returns the error that no password is available. The state is
  \<open>w1\<close>, whatever the prompt and \<open>secretbox.Open\<close> would do: nobody is asked and
  nothing is decrypted.
\<close>

theorem no_password_available:
  assumes "envPassword D w = (None, w1)"
    and "ReadFile (ConfigPath w1) w1 = Inr b"
    and "findSentinel b = Encrypted r"
    and "base64_ReadAll D r = Some box"
    and "24 + secretbox_Overhead \<le> length box"
    and "configKey w1 = []"
    and "environ w1 ''_RCLONE_CONFIG_KEY_FILE'' = []"
    and "\<not> AskPassword w1"
  shows "loadConfigFile (D\<lparr>getConfigPassword := gp, secretbox_Open := so\<rparr>) w
           = Some (Some NoPasswordAllowed, w1)"
proof -
  let ?D = "D\<lparr>getConfigPassword := gp, secretbox_Open := so\<rparr>"
  have e: "envPassword ?D w = (None, w1)"
    using assms(1) by (simp add: envPassword_update2)
  have a: "acquireKey ?D w1 = (Some NoPasswordAllowed, w1)"
    using assms(6,7,8) by (simp add: acquireKey_def)
  have "decryptLoop ?D box w1 = Some (Inl NoPasswordAllowed, w1)"
    by (subst decryptLoop.simps) (simp add: a)
  then have "decryptConfig ?D r w1 = Some (Some NoPasswordAllowed, w1)"
    using assms(4,5) by (simp add: decryptConfig_def)
  then show ?thesis
    using e assms(2,3) by (simp add: loadConfigFile_def)
qed

theorem no_password_available_witness:
  "\<not> AskPassword (exampleWorld (exampleEncrypted (CHR ''k''))) \<and>
   loadConfigFile exampleDeps (exampleWorld (exampleEncrypted (CHR ''k'')))
     = Some (Some NoPasswordAllowed, exampleWorld (exampleEncrypted (CHR ''k'')))"
proof -
  have d: "base64_ReadAll exampleDeps (exampleBox (CHR ''k'')) = Some (exampleBox (CHR ''k''))"
    by (simp add: exampleDeps_def)
  have n: "24 + secretbox_Overhead \<le> length (exampleBox (CHR ''k''))"
    by (simp add: secretbox_Overhead_def exampleBox_def)
  have k: "configKey (exampleWorld (exampleEncrypted (CHR ''k''))) = []"
    by (simp add: exampleWorld_def)
  have v: "environ (exampleWorld (exampleEncrypted (CHR ''k''))) ''_RCLONE_CONFIG_KEY_FILE'' = []"
    by (simp add: exampleWorld_def)
  have a: "\<not> AskPassword (exampleWorld (exampleEncrypted (CHR ''k'')))"
    by (simp add: exampleWorld_def)
  have u: "exampleDeps\<lparr>getConfigPassword := getConfigPassword exampleDeps,
             secretbox_Open := secretbox_Open exampleDeps\<rparr> = exampleDeps"
    by simp
  show ?thesis
    using no_password_available [OF exampleWorld_envPassword exampleWorld_ReadFile
        exampleEncrypted_scan d n k v a,
        where gp = "getConfigPassword exampleDeps" and so = "secretbox_Open exampleDeps"]
    by (simp only: u a simp_thms)
qed

lemma exampleBox_open:
  "secretbox_Open exampleDeps (drop 24 (exampleBox k)) (take 24 (exampleBox k))
     (replicate 32 k) = Some []"
  by (simp add: exampleDeps_def exampleBox_def)

lemma exampleBox_length: "length (exampleBox k) = 40"
  by (simp add: exampleBox_def)

lemma exampleDeps_base64: "base64_ReadAll exampleDeps r = Some r"
  by (simp add: exampleDeps_def)

text \<open>
  C7 as it is stated fails: the content is encrypted, no key is in memory, the environment
  names no key file and \<open>AskPassword\<close> is false, but the environment holds a password in
  \<open>RCLONE_CONFIG_PASS\<close>. \<open>loadConfigFile\<close> derives the key from it before it reads the
  file (lines 318 to 326), decrypts, and returns without error.
\<close>

theorem no_password_available_counterexample:
  "configKey exampleEnvPassWorld = [] \<and>
   environ exampleEnvPassWorld ''_RCLONE_CONFIG_KEY_FILE'' = [] \<and>
   \<not> AskPassword exampleEnvPassWorld \<and>
   files exampleEnvPassWorld (ConfigPath exampleEnvPassWorld) = Some (exampleEncrypted (CHR ''p'')) \<and>
   findSentinel (exampleEncrypted (CHR ''p'')) = Encrypted (exampleBox (CHR ''p'')) \<and>
   loadConfigFile exampleDeps exampleEnvPassWorld
     = Some (provider_Load exampleDeps []
               (exampleEnvPassWorld\<lparr>configKey := replicate 32 (CHR ''p'')\<rparr>)) \<and>
   fst (provider_Load exampleDeps []
          (exampleEnvPassWorld\<lparr>configKey := replicate 32 (CHR ''p'')\<rparr>)) = None"
proof -
  let ?w = "exampleEnvPassWorld\<lparr>configKey := replicate 32 (CHR ''p'')\<rparr>"
  have s: "setConfigPassword exampleDeps ''secret'' exampleEnvPassWorld = (None, ?w)"
    by (simp add: exampleDeps_def)
  have v: "environ exampleEnvPassWorld ''RCLONE_CONFIG_PASS'' = ''secret''"
    by (simp add: exampleEnvPassWorld_def)
  have n: "configKey exampleEnvPassWorld = []"
    by (simp add: exampleEnvPassWorld_def exampleWorld_def)
  have e: "envPassword exampleDeps exampleEnvPassWorld = (None, ?w)"
    by (simp add: envPassword_def v n s Let_def del: world.simps)
  have r: "ReadFile (ConfigPath exampleEnvPassWorld) ?w = Inr (exampleEncrypted (CHR ''p''))"
    by (simp add: ReadFile_def exampleEnvPassWorld_def exampleWorld_def)
  have a: "acquireKey exampleDeps ?w = (None, ?w)"
    by (simp add: acquireKey_def exampleEnvPassWorld_def exampleWorld_def)
  have k: "configKey ?w = replicate 32 (CHR ''p'')" by simp
  have l: "decryptLoop exampleDeps (exampleBox (CHR ''p'')) ?w = Some (Inr [], ?w)"
    by (subst decryptLoop.simps) (simp add: a k exampleBox_open del: world.simps)
  have d: "decryptConfig exampleDeps (exampleBox (CHR ''p'')) ?w
     = Some (provider_Load exampleDeps [] ?w)"
    by (simp add: decryptConfig_def l secretbox_Overhead_def exampleBox_length
        exampleDeps_base64 del: world.simps)
  have f: "loadConfigFile exampleDeps exampleEnvPassWorld
     = Some (provider_Load exampleDeps [] ?w)"
    by (simp add: loadConfigFile_def e r exampleEncrypted_scan d del: world.simps)
  have p: "fst (provider_Load exampleDeps [] ?w) = None"
    by (simp add: provider_Load_def exampleEnvPassWorld_def exampleWorld_def exampleDeps_def)
  have c: "configKey exampleEnvPassWorld = [] \<and>
      environ exampleEnvPassWorld ''_RCLONE_CONFIG_KEY_FILE'' = [] \<and>
      \<not> AskPassword exampleEnvPassWorld \<and>
      files exampleEnvPassWorld (ConfigPath exampleEnvPassWorld)
        = Some (exampleEncrypted (CHR ''p''))"
    by (simp add: exampleEnvPassWorld_def exampleWorld_def)
  from c exampleEncrypted_scan [of "CHR ''p''"] f p show ?thesis by blast
qed

section \<open>The sources of the key\<close>

text \<open>
  C3, as amended. On every decrypt attempt (every turn of the loop, in whatever state
  \<open>w\<close> it starts) the key comes from: first the key file that the environment variable
  \<open>_RCLONE_CONFIG_KEY_FILE\<close> names, which is read and removed and whose content replaces
  the key in memory, whether one is set or not; second, only when the environment names no
  key file, the key in memory, with nothing read and nobody asked; third, only when there
  is neither, the prompt if \<open>AskPassword\<close> allows it, and the error otherwise.
\<close>

theorem key_source_order:
  "(environ w ''_RCLONE_CONFIG_KEY_FILE'' = kf \<and> kf \<noteq> [] \<and> ReadFile kf w = Inr ob \<and>
      os_Remove kf w = (None, w') \<and> Reveal D ob = Some k \<and> 32 \<le> length k \<and>
      secretbox_Open D (drop 24 box) (take 24 box) (take 32 k) = Some out
    \<longrightarrow> decryptLoop D box w = Some (Inr out, w'\<lparr>configKey := k\<rparr>)) \<and>
   (environ w ''_RCLONE_CONFIG_KEY_FILE'' = [] \<and> 32 \<le> length (configKey w) \<and>
      secretbox_Open D (drop 24 box) (take 24 box) (take 32 (configKey w)) = Some out
    \<longrightarrow> decryptLoop D box w = Some (Inr out, w)) \<and>
   (environ w ''_RCLONE_CONFIG_KEY_FILE'' = [] \<and> configKey w = [] \<and> AskPassword w \<and>
      getConfigPassword D ''Enter configuration password:'' w = (None, w') \<and>
      32 \<le> length (configKey w') \<and>
      secretbox_Open D (drop 24 box) (take 24 box) (take 32 (configKey w')) = Some out
    \<longrightarrow> decryptLoop D box w = Some (Inr out, w')) \<and>
   (environ w ''_RCLONE_CONFIG_KEY_FILE'' = [] \<and> configKey w = [] \<and> \<not> AskPassword w
    \<longrightarrow> decryptLoop D box w = Some (Inl NoPasswordAllowed, w))"
proof (intro conjI impI)
  assume a: "environ w ''_RCLONE_CONFIG_KEY_FILE'' = kf \<and> kf \<noteq> [] \<and> ReadFile kf w = Inr ob \<and>
      os_Remove kf w = (None, w') \<and> Reveal D ob = Some k \<and> 32 \<le> length k \<and>
      secretbox_Open D (drop 24 box) (take 24 box) (take 32 k) = Some out"
  then have "acquireKey D w = (None, w'\<lparr>configKey := k\<rparr>)"
    by (auto simp: acquireKey_def)
  with a show "decryptLoop D box w = Some (Inr out, w'\<lparr>configKey := k\<rparr>)"
    by (subst decryptLoop.simps) simp
next
  assume a: "environ w ''_RCLONE_CONFIG_KEY_FILE'' = [] \<and> 32 \<le> length (configKey w) \<and>
      secretbox_Open D (drop 24 box) (take 24 box) (take 32 (configKey w)) = Some out"
  then have "configKey w \<noteq> []" by auto
  with a have "acquireKey D w = (None, w)"
    by (simp add: acquireKey_def)
  with a show "decryptLoop D box w = Some (Inr out, w)"
    by (subst decryptLoop.simps) simp
next
  assume a: "environ w ''_RCLONE_CONFIG_KEY_FILE'' = [] \<and> configKey w = [] \<and> AskPassword w \<and>
      getConfigPassword D ''Enter configuration password:'' w = (None, w') \<and>
      32 \<le> length (configKey w') \<and>
      secretbox_Open D (drop 24 box) (take 24 box) (take 32 (configKey w')) = Some out"
  then have "acquireKey D w = (None, w')"
    by (simp add: acquireKey_def)
  with a show "decryptLoop D box w = Some (Inr out, w')"
    by (subst decryptLoop.simps) simp
next
  assume a: "environ w ''_RCLONE_CONFIG_KEY_FILE'' = [] \<and> configKey w = [] \<and> \<not> AskPassword w"
  then have "acquireKey D w = (Some NoPasswordAllowed, w)"
    by (simp add: acquireKey_def)
  then show "decryptLoop D box w = Some (Inl NoPasswordAllowed, w)"
    by (subst decryptLoop.simps) simp
qed

lemma exampleHandoff_remove:
  "os_Remove exampleKeyFile exampleHandoffWorld
     = (None, exampleHandoffWorld\<lparr>files := [''rclone.conf'' \<mapsto> exampleEncrypted (CHR ''f'')]\<rparr>)"
proof -
  have "[''rclone.conf'' \<mapsto> exampleEncrypted (CHR ''f''),
         exampleKeyFile \<mapsto> replicate 32 (CHR ''f'')](exampleKeyFile := None)
        = [''rclone.conf'' \<mapsto> exampleEncrypted (CHR ''f'')]"
    by (auto simp: exampleKeyFile_def fun_eq_iff)
  then show ?thesis
    by (simp add: os_Remove_def exampleHandoffWorld_def exampleWorld_def exampleKeyFile_def)
qed

lemma exampleHandoff_loop:
  "decryptLoop exampleDeps (exampleBox (CHR ''f'')) exampleHandoffWorld
     = Some (Inr [], exampleHandoffDone)"
proof -
  have e: "environ exampleHandoffWorld ''_RCLONE_CONFIG_KEY_FILE'' = exampleKeyFile"
    by (simp add: exampleHandoffWorld_def)
  have r: "ReadFile exampleKeyFile exampleHandoffWorld = Inr (replicate 32 (CHR ''f''))"
    by (simp add: ReadFile_def exampleHandoffWorld_def exampleWorld_def exampleKeyFile_def)
  have d: "exampleHandoffWorld\<lparr>files := [''rclone.conf'' \<mapsto> exampleEncrypted (CHR ''f'')]\<rparr>
             \<lparr>configKey := replicate 32 (CHR ''f'')\<rparr> = exampleHandoffDone"
    by (simp add: exampleHandoffDone_def)
  have a: "acquireKey exampleDeps exampleHandoffWorld = (None, exampleHandoffDone)"
    using e r exampleHandoff_remove d
    by (simp add: acquireKey_def exampleKeyFile_def exampleDeps_def)
  have k: "configKey exampleHandoffDone = replicate 32 (CHR ''f'')"
    by (simp add: exampleHandoffDone_def)
  show ?thesis
    by (subst decryptLoop.simps) (simp add: a k exampleBox_open)
qed

theorem key_source_order_witness:
  "decryptLoop exampleDeps (exampleBox (CHR ''f'')) exampleHandoffWorld
     = Some (Inr [], exampleHandoffDone) \<and>
   decryptLoop exampleDeps (exampleBox (CHR ''m'')) exampleKeyedWorld
     = Some (Inr [], exampleKeyedWorld) \<and>
   decryptLoop exampleDeps (exampleBox (CHR ''u'')) exampleAskWorld
     = Some (Inr [], exampleAskWorld\<lparr>configKey := replicate 32 (CHR ''u'')\<rparr>) \<and>
   decryptLoop exampleDeps (exampleBox (CHR ''k'')) (exampleWorld [])
     = Some (Inl NoPasswordAllowed, exampleWorld [])"
proof -
  have e1: "environ exampleHandoffWorld ''_RCLONE_CONFIG_KEY_FILE'' = exampleKeyFile"
    by (simp add: exampleHandoffWorld_def)
  have n1: "exampleKeyFile \<noteq> []" by (simp add: exampleKeyFile_def)
  have r1: "ReadFile exampleKeyFile exampleHandoffWorld = Inr (replicate 32 (CHR ''f''))"
    by (simp add: ReadFile_def exampleHandoffWorld_def exampleWorld_def exampleKeyFile_def)
  have v1: "Reveal exampleDeps (replicate 32 (CHR ''f'')) = Some (replicate 32 (CHR ''f''))"
    by (simp add: exampleDeps_def)
  have d1: "exampleHandoffWorld\<lparr>files := [''rclone.conf'' \<mapsto> exampleEncrypted (CHR ''f'')]\<rparr>
             \<lparr>configKey := replicate 32 (CHR ''f'')\<rparr> = exampleHandoffDone"
    by (simp add: exampleHandoffDone_def)
  have c1: "decryptLoop exampleDeps (exampleBox (CHR ''f'')) exampleHandoffWorld
     = Some (Inr [], exampleHandoffDone)"
    using key_source_order [where w = exampleHandoffWorld and kf = exampleKeyFile
        and ob = "replicate 32 (CHR ''f'')" and D = exampleDeps and k = "replicate 32 (CHR ''f'')"
        and w' = "exampleHandoffWorld\<lparr>files := [''rclone.conf'' \<mapsto> exampleEncrypted (CHR ''f'')]\<rparr>"
        and box = "exampleBox (CHR ''f'')" and out = "[]"]
      e1 n1 r1 v1 exampleHandoff_remove exampleBox_open [of "CHR ''f''"]
    by (simp add: d1)
  have e2: "environ exampleKeyedWorld ''_RCLONE_CONFIG_KEY_FILE'' = []"
    by (simp add: exampleKeyedWorld_def exampleWorld_def)
  have k2: "configKey exampleKeyedWorld = replicate 32 (CHR ''m'')"
    by (simp add: exampleKeyedWorld_def)
  have c2: "decryptLoop exampleDeps (exampleBox (CHR ''m'')) exampleKeyedWorld
     = Some (Inr [], exampleKeyedWorld)"
    using key_source_order [where w = exampleKeyedWorld and D = exampleDeps
        and box = "exampleBox (CHR ''m'')" and out = "[]"]
      e2 exampleBox_open [of "CHR ''m''"]
    by (simp add: k2)
  have e3: "environ exampleAskWorld ''_RCLONE_CONFIG_KEY_FILE'' = []"
    by (simp add: exampleAskWorld_def exampleWorld_def)
  have k3: "configKey exampleAskWorld = []"
    by (simp add: exampleAskWorld_def exampleWorld_def)
  have a3: "AskPassword exampleAskWorld"
    by (simp add: exampleAskWorld_def)
  have g3: "getConfigPassword exampleDeps ''Enter configuration password:'' exampleAskWorld
     = (None, exampleAskWorld\<lparr>configKey := replicate 32 (CHR ''u'')\<rparr>)"
    by (simp add: exampleDeps_def)
  have c3: "decryptLoop exampleDeps (exampleBox (CHR ''u'')) exampleAskWorld
     = Some (Inr [], exampleAskWorld\<lparr>configKey := replicate 32 (CHR ''u'')\<rparr>)"
    using key_source_order [where w = exampleAskWorld and D = exampleDeps
        and w' = "exampleAskWorld\<lparr>configKey := replicate 32 (CHR ''u'')\<rparr>"
        and box = "exampleBox (CHR ''u'')" and out = "[]"]
      e3 k3 a3 g3 exampleBox_open [of "CHR ''u''"]
    by simp
  have c4: "decryptLoop exampleDeps (exampleBox (CHR ''k'')) (exampleWorld [])
     = Some (Inl NoPasswordAllowed, exampleWorld [])"
    using key_source_order [where w = "exampleWorld []" and D = exampleDeps
        and box = "exampleBox (CHR ''k'')"]
    by (simp add: exampleWorld_def)
  from c1 c2 c3 c4 show ?thesis by simp
qed

text \<open>
  C3 as it is stated fails: with a key in memory and a key file named by the environment,
  the file is read and removed, and the key it holds is the one used.
\<close>

theorem key_source_order_counterexample:
  "configKey exampleHandoffWorld = replicate 32 (CHR ''m'') \<and>
   files exampleHandoffWorld exampleKeyFile = Some (replicate 32 (CHR ''f'')) \<and>
   loadConfigFile exampleDeps exampleHandoffWorld
     = Some (provider_Load exampleDeps [] exampleHandoffDone) \<and>
   files exampleHandoffDone exampleKeyFile = None \<and>
   configKey exampleHandoffDone = replicate 32 (CHR ''f'')"
proof -
  have e: "envPassword exampleDeps exampleHandoffWorld = (None, exampleHandoffWorld)"
    by (simp add: envPassword_def exampleHandoffWorld_def)
  have r: "ReadFile (ConfigPath exampleHandoffWorld) exampleHandoffWorld
     = Inr (exampleEncrypted (CHR ''f''))"
    by (simp add: ReadFile_def exampleHandoffWorld_def exampleWorld_def exampleKeyFile_def)
  have d: "decryptConfig exampleDeps (exampleBox (CHR ''f'')) exampleHandoffWorld
     = Some (provider_Load exampleDeps [] exampleHandoffDone)"
    by (simp add: decryptConfig_def exampleHandoff_loop secretbox_Overhead_def
        exampleBox_length exampleDeps_base64)
  have l: "loadConfigFile exampleDeps exampleHandoffWorld
     = Some (provider_Load exampleDeps [] exampleHandoffDone)"
    by (simp add: loadConfigFile_def e r exampleEncrypted_scan d)
  show ?thesis
    using l
    by (simp add: exampleHandoffWorld_def exampleHandoffDone_def exampleKeyFile_def)
qed

section \<open>The provider\<close>

lemma hasRemoteLoop_set: "hasRemoteLoop r l = (r \<in> set l)"
  by (induction l) auto

lemma deref_update:
  "deref h p = Inr (a, c) \<Longrightarrow> deref (h[a := c']) p = Inr (a, c')"
  by (auto simp: deref_def split: option.splits if_splits)

lemma deref_same: "deref h p = Inr (a, c) \<Longrightarrow> h[a := c] = h"
  by (auto simp: deref_def split: option.splits if_splits)

lemma sectionName_nonempty: "sectionName s \<noteq> []"
  by (simp add: sectionName_def DEFAULT_SECTION_def)

lemma sectionName_id: "s \<noteq> [] \<Longrightarrow> sectionName s = s"
  by (simp add: sectionName_def)

lemma SetValue_empty_key: "SetValue s [] v c = (False, c)"
  by (simp add: SetValue_def)

lemma SetValue_unique: "uniqueNames c \<Longrightarrow> uniqueNames (snd (SetValue s k v c))"
  using sectionName_nonempty [of s]
  by (auto simp: SetValue_def uniqueNames_def Let_def split: option.splits)

lemma SetValue_sectionList:
  "data c (sectionName s) \<noteq> None \<Longrightarrow> sectionList (snd (SetValue s k v c)) = sectionList c"
  by (auto simp: SetValue_def Let_def split: option.splits)

lemma SetValue_dom:
  "data c (sectionName s) \<noteq> None \<Longrightarrow> dom (data (snd (SetValue s k v c))) = dom (data c)"
  by (auto simp: SetValue_def Let_def split: option.splits)

lemma SetValue_lookup:
  "k \<noteq> [] \<Longrightarrow>
   \<exists>m. data (snd (SetValue s k v c)) (sectionName s) = Some m \<and> m k = Some v"
  by (auto simp: SetValue_def Let_def split: option.splits)

lemma copyLoop_unique: "uniqueNames c \<Longrightarrow> uniqueNames (copyLoop dst m ks c)"
  by (induction ks arbitrary: c) (auto simp: SetValue_unique split: option.splits)

lemma copyLoop_sectionList:
  "data c (sectionName dst) \<noteq> None \<Longrightarrow>
   sectionList (copyLoop dst m ks c) = sectionList c \<and>
   dom (data (copyLoop dst m ks c)) = dom (data c)"
proof (induction ks arbitrary: c)
  case Nil
  then show ?case by simp
next
  case (Cons k ks)
  show ?case
  proof (cases "m k")
    case None
    then show ?thesis using Cons by simp
  next
    case (Some v)
    let ?c = "snd (SetValue dst k v c)"
    have d: "dom (data ?c) = dom (data c)" and l: "sectionList ?c = sectionList c"
      using Cons.prems by (simp_all add: SetValue_dom SetValue_sectionList)
    have "data ?c (sectionName dst) \<noteq> None"
      using Cons.prems d by (metis domIff)
    then show ?thesis
      using Cons.IH [of ?c] Some d l by simp
  qed
qed

lemma GetSection_unique:
  "uniqueNames c \<Longrightarrow> GetSection s c = Inr (m, c') \<Longrightarrow>
   uniqueNames c' \<and> sectionList c' = sectionList c \<and> dom (data c') = dom (data c)"
  by (auto simp: GetSection_def uniqueNames_def Let_def split: option.splits if_splits)

lemma GetSection_missing: "data c (sectionName s) = None \<Longrightarrow> GetSection s c = Inl SectionNotFound"
  by (simp add: GetSection_def)

lemma GetSection_present:
  "data c (sectionName s) \<noteq> None \<Longrightarrow> \<exists>m c'. GetSection s c = Inr (m, c')"
  by (auto simp: GetSection_def Let_def)

lemma DeleteKey_unique: "uniqueNames c \<Longrightarrow> uniqueNames (snd (DeleteKey s k c))"
  by (auto simp: DeleteKey_def uniqueNames_def Let_def split: option.splits)

lemma DeleteSection_unique:
  "uniqueNames c \<Longrightarrow>
   \<exists>b c'. DeleteSection s c = Inr (b, c') \<and> uniqueNames c' \<and>
     sectionName s \<notin> set (sectionList c') \<and> data c' (sectionName s) = None"
  by (auto simp: DeleteSection_def uniqueNames_def Let_def split: option.splits)

text \<open>
  C4. No file exists at \<open>ConfigPath\<close>: \<open>LoadConfig\<close> returns, but \<open>provider.Load\<close> was
  never called and the \<open>config\<close> pointer of the provider is still nil, so \<open>ListRemotes\<close>
  and \<open>HasRemote\<close> panic instead of answering for an empty \<open>RemoteConfig\<close>.
\<close>

theorem missing_file_leaves_nil_config:
  "\<exists>w' g. LoadConfig D exampleFirstRun = Some (None, w') \<and>
          GetRemoteConfig w' = Inr g \<and>
          ListRemotes g (heap w') = Inl Panic \<and>
          HasRemote g r (heap w') = Inl Panic"
proof -
  have x: "Ext ''rclone.conf'' = ''.conf''" by code_simp
  have p: "providersLoop (configProviders exampleFirstRun) exampleFirstRun
     = (None, exampleFirstRun\<lparr>provider := Some \<lparr>config = None\<rparr>\<rparr>)"
    by (simp add: exampleFirstRun_def exampleWorld_def x NewGoConfigProvider_def)
  let ?w = "exampleFirstRun\<lparr>provider := Some \<lparr>config = None\<rparr>\<rparr>"
  have l: "loadConfigFile D ?w = Some (Some ConfigFileNotFound, ?w)"
    by (simp add: loadConfigFile_def envPassword_def ReadFile_def exampleFirstRun_def
        exampleWorld_def)
  have "LoadConfig D exampleFirstRun = Some (None, ?w)"
    by (simp add: LoadConfig_def p l)
  moreover have "GetRemoteConfig ?w = Inr \<lparr>config = None\<rparr>"
    by (simp add: GetRemoteConfig_def)
  moreover have "ListRemotes \<lparr>config = None\<rparr> (heap ?w) = Inl Panic"
    by (simp add: ListRemotes_def deref_def)
  moreover have "HasRemote \<lparr>config = None\<rparr> r (heap ?w) = Inl Panic"
    by (simp add: HasRemote_def ListRemotes_def deref_def)
  ultimately show ?thesis by blast
qed

text \<open>
  C9, as amended. For a remote name \<open>r\<close> that is not empty, in a \<open>ConfigFile\<close> with
  unique names, and with \<open>HasRemote(r)\<close> false: \<open>GetRemote(r)\<close> still returns a handle,
  and \<open>Keys\<close>, \<open>GetString\<close> and \<open>GetConfig\<close> through it, and \<open>CopyRemote\<close>
  from \<open>r\<close>, end the process with \<open>log.Fatalf\<close>.
\<close>

theorem missing_remote_is_fatal:
  assumes "storeUnique g h" and "HasRemote g r h = Inr False" and "r \<noteq> []"
  shows "GetRemote g r = \<lparr>sconfig = config g, remote = r\<rparr> \<and>
         Keys (GetRemote g r) h = Inl Fatal \<and>
         GetString (GetRemote g r) name h = Inl Fatal \<and>
         GetConfig (GetRemote g r) h = Inl Fatal \<and>
         CopyRemote ks g r dst h = Inl Fatal"
proof -
  from assms(1) obtain a c where d: "deref h (config g) = Inr (a, c)" and u: "uniqueNames c"
    by (auto simp: storeUnique_def split: sum.splits)
  from assms(2) d have "r \<notin> set (sectionList c)"
    by (simp add: HasRemote_def ListRemotes_def GetSectionList_def hasRemoteLoop_set)
  with u have "data c r = None"
    by (auto simp: uniqueNames_def)
  then have g: "GetSection r c = Inl SectionNotFound"
    using assms(3) by (simp add: GetSection_missing sectionName_id)
  have f: "getRemoteData (GetRemote g r) h = Inl Fatal"
    by (simp add: getRemoteData_def GetRemote_def newSection_def d g)
  show ?thesis
    by (simp add: Keys_def GetString_def GetConfig_def f CopyRemote_def d g)
      (simp add: GetRemote_def newSection_def)
qed

lemma exampleDefault_unique: "storeUnique exampleGoConfig exampleDefaultStore"
  by (auto simp: storeUnique_def deref_def exampleGoConfig_def exampleDefaultStore_def
      uniqueNames_def)

theorem missing_remote_is_fatal_witness:
  "HasRemote exampleGoConfig ''remote1'' exampleDefaultStore = Inr False \<and>
   Keys (GetRemote exampleGoConfig ''remote1'') exampleDefaultStore = Inl Fatal \<and>
   GetString (GetRemote exampleGoConfig ''remote1'') ''type'' exampleDefaultStore = Inl Fatal \<and>
   GetConfig (GetRemote exampleGoConfig ''remote1'') exampleDefaultStore = Inl Fatal \<and>
   CopyRemote [''type''] exampleGoConfig ''remote1'' ''remote2'' exampleDefaultStore = Inl Fatal"
proof -
  have h: "HasRemote exampleGoConfig ''remote1'' exampleDefaultStore = Inr False"
    by (simp add: HasRemote_def ListRemotes_def GetSectionList_def deref_def exampleGoConfig_def
        exampleDefaultStore_def)
  have n: "''remote1'' \<noteq> []" by simp
  show ?thesis
    using missing_remote_is_fatal [OF exampleDefault_unique h n,
        where name = "''type''" and ks = "[''type'']" and dst = "''remote2''"] h
    by blast
qed

text \<open>
  C9 as it is stated fails for the empty name: \<open>HasRemote("")\<close> is false, since no section
  is listed under the blank name, but goconfig reads the section \<open>DEFAULT\<close> for it, and
  the reads through the handle return its options.
\<close>

theorem missing_remote_is_fatal_counterexample:
  "HasRemote exampleGoConfig [] exampleDefaultStore = Inr False \<and>
   GetString (GetRemote exampleGoConfig []) ''k'' exampleDefaultStore
     = Inr (''v'', exampleDefaultStore) \<and>
   Keys (GetRemote exampleGoConfig []) exampleDefaultStore
     = Inr ({''k''}, exampleDefaultStore)"
proof -
  have m: "[''k'' \<mapsto> ''v'']([CHR '' ''] := None) = [''k'' \<mapsto> ''v'']"
    by (auto simp: fun_eq_iff)
  show ?thesis
    by (simp add: m Let_def HasRemote_def ListRemotes_def GetSectionList_def deref_def exampleGoConfig_def
        exampleDefaultStore_def GetString_def Keys_def getRemoteData_def GetRemote_def
        newSection_def GetSection_def sectionName_def DEFAULT_SECTION_def)
qed

section \<open>Unique remote names\<close>

lemma storeUnique_deref:
  "storeUnique g h \<Longrightarrow> \<exists>a c. deref h (config g) = Inr (a, c) \<and> uniqueNames c"
  by (auto simp: storeUnique_def split: sum.splits)

lemma storeUnique_update:
  "deref h (config g) = Inr (a, c) \<Longrightarrow> uniqueNames c' \<Longrightarrow> storeUnique g (h[a := c'])"
  by (simp add: storeUnique_def deref_update)

lemma HasRemote_deref:
  "deref h (config g) = Inr (a, c) \<Longrightarrow> HasRemote g r h = Inr (r \<in> set (sectionList c))"
  by (simp add: HasRemote_def ListRemotes_def GetSectionList_def hasRemoteLoop_set)

lemma exampleStore_unique: "storeUnique exampleGoConfig exampleStore"
  by (auto simp: storeUnique_def deref_def exampleGoConfig_def exampleStore_def
      exampleConfigFile_def uniqueNames_def)

lemma exampleStore_has: "HasRemote exampleGoConfig ''remote1'' exampleStore = Inr True"
  by (simp add: HasRemote_def ListRemotes_def GetSectionList_def deref_def exampleGoConfig_def
      exampleStore_def exampleConfigFile_def)

text \<open>What \<open>RenameRemote\<close> of an existing remote onto itself leaves in the store.\<close>

lemma RenameRemote_self:
  assumes d: "deref h (config g) = Inr (a, c)" and u: "uniqueNames c"
    and r: "r \<in> set (sectionList c)"
  shows "\<exists>c'. RenameRemote ks g r r h = Inr (h[a := c']) \<and> uniqueNames c' \<and>
           r \<notin> set (sectionList c') \<and> data c' r = None"
proof -
  from u r have ne: "r \<noteq> []" and dr: "data c r \<noteq> None"
    by (auto simp: uniqueNames_def)
  then have sn: "sectionName r = r" by (simp add: sectionName_id)
  from dr sn obtain m c1 where g: "GetSection r c = Inr (m, c1)"
    using GetSection_present [of c r] by auto
  from GetSection_unique [OF u g]
  have u1: "uniqueNames c1" and l1: "sectionList c1 = sectionList c"
    and d1: "dom (data c1) = dom (data c)" by simp_all
  have dr1: "data c1 (sectionName r) \<noteq> None"
    using dr d1 sn by (metis domIff)
  let ?c2 = "copyLoop r m ks c1"
  have u2: "uniqueNames ?c2" using u1 by (rule copyLoop_unique)
  have cp: "CopyRemote ks g r r h = Inr (h[a := ?c2])"
    by (simp add: CopyRemote_def d g)
  have d2: "deref (h[a := ?c2]) (config g) = Inr (a, ?c2)"
    using d by (rule deref_update)
  from DeleteSection_unique [OF u2, of r] obtain b c3
    where ds: "DeleteSection r ?c2 = Inr (b, c3)" and u3: "uniqueNames c3"
      and n3: "r \<notin> set (sectionList c3)" and x3: "data c3 r = None"
    using sn by auto
  have "RenameRemote ks g r r h = Inr (h[a := c3])"
    by (simp add: RenameRemote_def cp d2 ds)
  with u3 n3 x3 show ?thesis by blast
qed

text \<open>
  C10. For an existing remote \<open>r\<close> (in a \<open>ConfigFile\<close> with unique names),
  \<open>RenameRemote(r, r)\<close> copies the section onto itself and then deletes it: afterwards
  \<open>HasRemote(r)\<close> is false, and the options are gone, a read through the handle finding
  no section.
\<close>

theorem rename_to_itself_removes:
  assumes "storeUnique g h" and "HasRemote g r h = Inr True"
  shows "\<exists>h'. RenameRemote ks g r r h = Inr h' \<and>
           HasRemote g r h' = Inr False \<and>
           Keys (GetRemote g r) h' = Inl Fatal \<and>
           GetString (GetRemote g r) name h' = Inl Fatal"
proof -
  from storeUnique_deref [OF assms(1)] obtain a c
    where d: "deref h (config g) = Inr (a, c)" and u: "uniqueNames c" by blast
  from assms(2) d have r: "r \<in> set (sectionList c)"
    by (simp add: HasRemote_deref)
  from RenameRemote_self [OF d u r, of ks] obtain c'
    where rn: "RenameRemote ks g r r h = Inr (h[a := c'])" and u': "uniqueNames c'"
      and n: "r \<notin> set (sectionList c')" and x: "data c' r = None" by blast
  have ne: "r \<noteq> []" using u r by (auto simp: uniqueNames_def)
  have d': "deref (h[a := c']) (config g) = Inr (a, c')"
    using d by (rule deref_update)
  have hr: "HasRemote g r (h[a := c']) = Inr False"
    using n by (simp add: HasRemote_deref [OF d'])
  have gs: "GetSection r c' = Inl SectionNotFound"
    using x ne by (simp add: GetSection_missing sectionName_id)
  have f: "getRemoteData (GetRemote g r) (h[a := c']) = Inl Fatal"
    by (simp add: getRemoteData_def GetRemote_def newSection_def d' gs)
  show ?thesis
    using rn hr f by (simp add: Keys_def GetString_def)
qed

theorem rename_to_itself_removes_witness:
  "HasRemote exampleGoConfig ''remote1'' exampleStore = Inr True \<and>
   (\<exists>h'. RenameRemote [''type''] exampleGoConfig ''remote1'' ''remote1'' exampleStore = Inr h' \<and>
      HasRemote exampleGoConfig ''remote1'' h' = Inr False \<and>
      Keys (GetRemote exampleGoConfig ''remote1'') h' = Inl Fatal \<and>
      GetString (GetRemote exampleGoConfig ''remote1'') ''type'' h' = Inl Fatal)"
  using rename_to_itself_removes [OF exampleStore_unique exampleStore_has,
      where ks = "[''type'']" and name = "''type''"] exampleStore_has
  by blast

text \<open>What the operations do to the provider's \<open>ConfigFile\<close>.\<close>

lemma CreateRemote_noop:
  "deref h (config g) = Inr (a, c) \<Longrightarrow> CreateRemote g r h = Inr (GetRemote g r, h)"
  by (simp add: CreateRemote_def SetValue_empty_key deref_same)

lemma DeleteRemote_unique:
  assumes "storeUnique g h"
  shows "\<exists>h'. DeleteRemote g r h = Inr h' \<and> storeUnique g h' \<and> HasRemote g r h' = Inr False"
proof -
  from storeUnique_deref [OF assms] obtain a c
    where d: "deref h (config g) = Inr (a, c)" and u: "uniqueNames c" by blast
  from DeleteSection_unique [OF u, of r] obtain b c'
    where ds: "DeleteSection r c = Inr (b, c')" and u': "uniqueNames c'"
      and n: "sectionName r \<notin> set (sectionList c')" by blast
  have "r \<notin> set (sectionList c')"
  proof (cases "r = []")
    case True
    then show ?thesis using u' by (auto simp: uniqueNames_def)
  next
    case False
    then show ?thesis using n by (simp add: sectionName_id)
  qed
  then have "HasRemote g r (h[a := c']) = Inr False"
    by (simp add: HasRemote_deref [OF deref_update [OF d]])
  moreover have "DeleteRemote g r h = Inr (h[a := c'])"
    by (simp add: DeleteRemote_def d ds)
  ultimately show ?thesis
    using storeUnique_update [OF d u'] by simp
qed

lemma CopyRemote_unique:
  assumes "storeUnique g h" and "CopyRemote ks g src dst h = Inr h'"
  shows "storeUnique g h'"
proof -
  from storeUnique_deref [OF assms(1)] obtain a c
    where d: "deref h (config g) = Inr (a, c)" and u: "uniqueNames c" by blast
  from assms(2) d obtain m c1 where g: "GetSection src c = Inr (m, c1)"
    and h': "h' = h[a := copyLoop dst m ks c1]"
    by (auto simp: CopyRemote_def split: sum.splits)
  from GetSection_unique [OF u g] have "uniqueNames c1" by simp
  then have "uniqueNames (copyLoop dst m ks c1)" by (rule copyLoop_unique)
  then show ?thesis using h' storeUnique_update [OF d] by simp
qed

lemma RenameRemote_unique:
  assumes "storeUnique g h" and "RenameRemote ks g src dst h = Inr h'"
  shows "storeUnique g h'"
proof -
  from assms(2) obtain h1 where cp: "CopyRemote ks g src dst h = Inr h1"
    by (auto simp: RenameRemote_def split: sum.splits)
  have u1: "storeUnique g h1" using assms(1) cp by (rule CopyRemote_unique)
  from storeUnique_deref [OF u1] obtain a c
    where d: "deref h1 (config g) = Inr (a, c)" and u: "uniqueNames c" by blast
  from DeleteSection_unique [OF u, of src] obtain b c'
    where ds: "DeleteSection src c = Inr (b, c')" and u': "uniqueNames c'" by blast
  have "h' = h1[a := c']"
    using assms(2) by (simp add: RenameRemote_def cp d ds)
  then show ?thesis using storeUnique_update [OF d u'] by simp
qed

lemma SetString_unique:
  assumes "storeUnique g h"
  shows "\<exists>h'. SetString (GetRemote g r) k v h = Inr h' \<and> storeUnique g h'"
proof -
  from storeUnique_deref [OF assms] obtain a c
    where d: "deref h (config g) = Inr (a, c)" and u: "uniqueNames c" by blast
  have "SetString (GetRemote g r) k v h = Inr (h[a := snd (SetValue r k v c)])"
    by (simp add: SetString_def GetRemote_def newSection_def d)
  then show ?thesis
    using storeUnique_update [OF d SetValue_unique [OF u]] by simp
qed

lemma Delete_unique:
  assumes "storeUnique g h"
  shows "\<exists>b h'. Delete (GetRemote g r) k h = Inr (b, h') \<and> storeUnique g h'"
proof -
  from storeUnique_deref [OF assms] obtain a c
    where d: "deref h (config g) = Inr (a, c)" and u: "uniqueNames c" by blast
  have "Delete (GetRemote g r) k h
     = Inr (fst (DeleteKey r k c), h[a := snd (DeleteKey r k c)])"
    by (simp add: Delete_def GetRemote_def newSection_def d split: prod.splits)
  then show ?thesis
    using storeUnique_update [OF d DeleteKey_unique [OF u]] by simp
qed

lemma getRemoteData_unique:
  assumes "storeUnique g h" and "getRemoteData (GetRemote g r) h = Inr (m, h')"
  shows "storeUnique g h'"
proof -
  from storeUnique_deref [OF assms(1)] obtain a c
    where d: "deref h (config g) = Inr (a, c)" and u: "uniqueNames c" by blast
  from assms(2) d obtain c1 where g: "GetSection r c = Inr (m, c1)" and h': "h' = h[a := c1]"
    by (auto simp: getRemoteData_def GetRemote_def newSection_def split: sum.splits)
  from GetSection_unique [OF u g] have "uniqueNames c1" by simp
  then show ?thesis using h' storeUnique_update [OF d] by simp
qed

text \<open>A value set through the handle of an existing remote is read back through any handle.\<close>

lemma SetString_GetString:
  assumes "storeUnique g h" and "k \<noteq> []" and "k \<noteq> [CHR '' '']"
  shows "\<exists>h1 h2. SetString (GetRemote g r) k v h = Inr h1 \<and>
           GetString (GetRemote g r) k h1 = Inr (v, h2)"
proof -
  from storeUnique_deref [OF assms(1)] obtain a c
    where d: "deref h (config g) = Inr (a, c)" by blast
  let ?c = "snd (SetValue r k v c)"
  have s: "SetString (GetRemote g r) k v h = Inr (h[a := ?c])"
    by (simp add: SetString_def GetRemote_def newSection_def d)
  from SetValue_lookup [OF assms(2), of r v c] obtain m
    where m: "data ?c (sectionName r) = Some m" and mk: "m k = Some v" by blast
  have "GetString (GetRemote g r) k (h[a := ?c])
     = Inr (v, (h[a := ?c])[a := ?c\<lparr>data := (data ?c)(sectionName r \<mapsto> m([CHR '' ''] := None))\<rparr>])"
    using m mk assms(3)
    by (simp add: GetString_def getRemoteData_def GetRemote_def newSection_def
        deref_update [OF d] GetSection_def Let_def)
  with s show ?thesis by blast
qed

text \<open>
  C8. Remote names are unique in the provider's \<open>ConfigFile\<close>, and every operation of
  \<open>RemoteConfig\<close> and \<open>Section\<close> keeps them so. \<open>CreateRemote(r)\<close> for a name that
  \<open>HasRemote\<close> already finds adds nothing: the store is the same (the same list of remotes,
  the same options), and the handle is the one of \<open>GetRemote(r)\<close>, through which the
  section is changed in place. After \<open>DeleteRemote(r)\<close>, \<open>HasRemote(r)\<close> is false.
\<close>

theorem remote_names_unique:
  assumes "storeUnique g h"
  shows "(\<exists>l. ListRemotes g h = Inr l \<and> distinct l) \<and>
         (\<exists>s h'. CreateRemote g r h = Inr (s, h') \<and> storeUnique g h' \<and>
            (HasRemote g r h = Inr True \<longrightarrow>
               h' = h \<and> s = GetRemote g r \<and>
               (k \<noteq> [] \<and> k \<noteq> [CHR '' ''] \<longrightarrow>
                  (\<exists>h1 h2. SetString s k v h' = Inr h1 \<and>
                     GetString (GetRemote g r) k h1 = Inr (v, h2))))) \<and>
         (\<exists>h'. DeleteRemote g r h = Inr h' \<and> storeUnique g h' \<and> HasRemote g r h' = Inr False) \<and>
         (\<forall>h'. CopyRemote ks g src dst h = Inr h' \<longrightarrow> storeUnique g h') \<and>
         (\<forall>h'. RenameRemote ks g src dst h = Inr h' \<longrightarrow> storeUnique g h') \<and>
         (\<exists>h'. SetString (GetRemote g r) k v h = Inr h' \<and> storeUnique g h') \<and>
         (\<exists>b h'. Delete (GetRemote g r) k h = Inr (b, h') \<and> storeUnique g h') \<and>
         (\<forall>m h'. getRemoteData (GetRemote g r) h = Inr (m, h') \<longrightarrow> storeUnique g h')"
proof -
  from storeUnique_deref [OF assms] obtain a c
    where d: "deref h (config g) = Inr (a, c)" and u: "uniqueNames c" by blast
  have 1: "\<exists>l. ListRemotes g h = Inr l \<and> distinct l"
    using d u by (simp add: ListRemotes_def GetSectionList_def uniqueNames_def)
  have 2: "\<exists>s h'. CreateRemote g r h = Inr (s, h') \<and> storeUnique g h' \<and>
            (HasRemote g r h = Inr True \<longrightarrow>
               h' = h \<and> s = GetRemote g r \<and>
               (k \<noteq> [] \<and> k \<noteq> [CHR '' ''] \<longrightarrow>
                  (\<exists>h1 h2. SetString s k v h' = Inr h1 \<and>
                     GetString (GetRemote g r) k h1 = Inr (v, h2))))"
    using CreateRemote_noop [OF d, of r] assms SetString_GetString [OF assms, of k r v]
    by auto
  show ?thesis
    using 1 2 DeleteRemote_unique [OF assms, of r] CopyRemote_unique [OF assms]
      RenameRemote_unique [OF assms] SetString_unique [OF assms, of r k v]
      Delete_unique [OF assms, of r k] getRemoteData_unique [OF assms]
    by blast
qed

theorem remote_names_unique_witness:
  "storeUnique exampleGoConfig exampleStore \<and>
   HasRemote exampleGoConfig ''remote1'' exampleStore = Inr True \<and>
   CreateRemote exampleGoConfig ''remote1'' exampleStore
     = Inr (GetRemote exampleGoConfig ''remote1'', exampleStore) \<and>
   (\<exists>l. ListRemotes exampleGoConfig exampleStore = Inr l \<and> distinct l) \<and>
   (\<exists>h'. DeleteRemote exampleGoConfig ''remote1'' exampleStore = Inr h' \<and>
      storeUnique exampleGoConfig h' \<and> HasRemote exampleGoConfig ''remote1'' h' = Inr False)"
proof -
  have "\<exists>s h'. CreateRemote exampleGoConfig ''remote1'' exampleStore = Inr (s, h') \<and>
      h' = exampleStore \<and> s = GetRemote exampleGoConfig ''remote1''"
    using remote_names_unique [OF exampleStore_unique, where r = "''remote1''"]
      exampleStore_has
    by blast
  then have "CreateRemote exampleGoConfig ''remote1'' exampleStore
     = Inr (GetRemote exampleGoConfig ''remote1'', exampleStore)"
    by auto
  then show ?thesis
    using remote_names_unique [OF exampleStore_unique, where r = "''remote1''"]
      exampleStore_unique exampleStore_has
    by blast
qed

section \<open>\<open>saveConfig\<close>: what is written\<close>




lemma oldPath_neq: "oldPath T \<noteq> T"
  by (simp add: oldPath_def)



section \<open>\<open>saveConfig\<close>: the run in which no call fails\<close>













section \<open>\<open>saveConfig\<close>: the previous config and the rename\<close>

lemma saveStep_keptInv:
  assumes "saveStep T tmp sc outcome s s'" and "keptInv old T s"
    and "tmp \<noteq> T" and "tmp \<noteq> oldPath T"
  shows "keptInv old T s'"
  using assms by (cases rule: saveStep.cases) (auto simp: oldPath_neq)

text \<open>
  Whatever call fails, and wherever the process dies: until the temporary file has been
  renamed onto \<open>ConfigPath\<close>, the previous config is whole at \<open>ConfigPath\<close> or at the
  backup path.
\<close>

lemma previous_config_kept:
  assumes "fs0 T = Some old" and "tmp \<noteq> T" and "tmp \<noteq> oldPath T"
    and "saveReach T tmp sc fs0 (p, fs)" and "\<not> committed p"
  shows "fs T = Some old \<or> fs (oldPath T) = Some old"
proof -
  have "saveReach T tmp sc fs0 s \<Longrightarrow> keptInv old T s" for s
  proof (induction rule: saveReach.induct)
    case reach_init
    then show ?case using assms(1) by simp
  next
    case (reach_step s outcome s')
    then show ?case using saveStep_keptInv assms(2,3) by blast
  qed
  from this [OF assms(4)] assms(5) show ?thesis
    by (cases p) (auto split: option.splits)
qed






end
